theory Spec2Isabelle
  imports Main
begin

section \<open>Strings as the parser uses them\<close>

text \<open>
  The source is TypeScript. Its strings are modelled as \<open>string\<close> (a list of
  characters), the line feed is \<open>CHR 0x0A\<close> and the tab is \<open>CHR 0x09\<close>. Each
  function below embeds one method of \<open>String.prototype\<close> that the source calls.
  A \<open>char\<close> has eight bits and stands for a code unit below 256. Of the white
  space and the line terminators of the source, \<open>U+0009\<close> to \<open>U+000D\<close>,
  \<open>U+0020\<close> and \<open>U+00A0\<close> are in that range; \<open>U+2028\<close>, \<open>U+2029\<close>, \<open>U+FEFF\<close>
  and the other spaces beyond it do not occur in a \<open>string\<close>.
\<close>

definition nl :: string where
  "nl = [CHR 0x0A]"

definition tab :: string where
  "tab = [CHR 0x09]"

text \<open>\<open>s.startsWith(p)\<close>\<close>

definition startsWith :: "string \<Rightarrow> string \<Rightarrow> bool" where
  "startsWith s p = (take (length p) s = p)"

text \<open>\<open>s.includes(p)\<close>: \<open>p\<close> occurs somewhere in \<open>s\<close>.\<close>

fun includes_str :: "string \<Rightarrow> string \<Rightarrow> bool" where
  "includes_str [] p = (p = [])"
| "includes_str (c # cs) p = (startsWith (c # cs) p \<or> includes_str cs p)"

text \<open>\<open>s.substring(n)\<close>\<close>

definition substring :: "string \<Rightarrow> nat \<Rightarrow> string" where
  "substring s n = drop n s"

text \<open>
  \<open>s.split(d)\<close> for a one-character separator: the result always has at least one
  element (\<open>''.split('\n')\<close> is \<open>['']\<close>).
\<close>

fun js_split :: "char \<Rightarrow> string \<Rightarrow> string list" where
  "js_split d [] = [[]]"
| "js_split d (c # cs) =
     (if c = d then [] # js_split d cs
      else (case js_split d cs of
              x # xs \<Rightarrow> (c # x) # xs
            | [] \<Rightarrow> [[c]]))"

text \<open>\<open>xs.slice(i, j)\<close> for \<open>i \<le> j\<close>; it never reads out of range.\<close>

definition slice :: "'a list \<Rightarrow> nat \<Rightarrow> nat \<Rightarrow> 'a list" where
  "slice xs i j = take (j - i) (drop i xs)"

text \<open>\<open>xs[i]\<close>: \<open>undefined\<close> (here \<open>None\<close>) out of range.\<close>

definition index :: "'a list \<Rightarrow> nat \<Rightarrow> 'a option" where
  "index xs i = (if i < length xs then Some (xs ! i) else None)"

section \<open>Numbers\<close>

text \<open>
  A JavaScript number as \<open>parseInt\<close> produces it: a double that holds an
  integer, an infinity, or \<open>NaN\<close>. \<open>Num k\<close> is the double whose value is the
  integer \<open>k\<close>. (Minus zero is \<open>Num 0\<close>: the source never looks at the sign of
  a zero.)
\<close>

datatype jsnum = Num int | PosInf | NegInf | NaN

text \<open>The number of binary digits of a natural number \<open>n\<close>.\<close>

function bit_length :: "int \<Rightarrow> nat" where
  "bit_length n = (if n \<le> 0 then 0 else Suc (bit_length (n div 2)))"
  by pat_completeness auto
termination
  by (relation "measure nat") auto

text \<open>
  The double nearest to a natural number \<open>n\<close>, ties to the even significand.
  Up to \<open>2 ^ 53\<close> every natural number is a double. A larger one keeps its
  leading 53 binary digits, rounded; from \<open>2 ^ 1024\<close> on the result is
  \<open>Infinity\<close>.
\<close>

definition to_double :: "int \<Rightarrow> jsnum" where
  "to_double n =
     (if n < 2 ^ 53 then Num n
      else (let e = bit_length n - 53;
                q = n div 2 ^ e;
                r = n mod 2 ^ e;
                h = 2 ^ (e - 1);
                m = (if h < r \<or> (r = h \<and> odd q) then q + 1 else q)
            in if 2 ^ 1024 \<le> m * 2 ^ e then PosInf else Num (m * 2 ^ e)))"

text \<open>Unary minus.\<close>

definition js_negate :: "jsnum \<Rightarrow> jsnum" where
  "js_negate n = (case n of Num k \<Rightarrow> Num (- k) | PosInf \<Rightarrow> NegInf | NegInf \<Rightarrow> PosInf | NaN \<Rightarrow> NaN)"

definition is_digit :: "char \<Rightarrow> bool" where
  "is_digit c = (c \<in> set ''0123456789'')"

definition is_js_space :: "char \<Rightarrow> bool" where
  "is_js_space c =
     (c \<in> set [CHR 0x09, CHR 0x0A, CHR 0x0B, CHR 0x0C, CHR 0x0D, CHR 0x20, CHR 0xA0])"

definition digit_val :: "char \<Rightarrow> int" where
  "digit_val c = of_char c - 48"

text \<open>The value of a run of decimal digits.\<close>

definition dec_value :: "string \<Rightarrow> int" where
  "dec_value ds = foldl (\<lambda>n c. 10 * n + digit_val c) 0 ds"

text \<open>
  \<open>parseInt(s, 10)\<close>: leading white space is skipped, one sign is read, then the
  longest run of decimal digits; no digit at all gives \<open>NaN\<close>. The result is the
  double nearest to the value of the digits, with the sign.
\<close>

definition parseInt10 :: "string \<Rightarrow> jsnum" where
  "parseInt10 s =
     (let t = dropWhile is_js_space s;
          neg = startsWith t ''-'';
          u = (if startsWith t ''-'' \<or> startsWith t ''+'' then drop 1 t else t);
          z = takeWhile is_digit u
      in if z = [] then NaN
         else if neg then js_negate (to_double (dec_value z))
         else to_double (dec_value z))"

text \<open>\<open>String(v)\<close> for a value that may be \<open>undefined\<close>, as \<open>parseInt\<close> applies it.\<close>

definition js_to_string :: "string option \<Rightarrow> string" where
  "js_to_string v = (case v of None \<Rightarrow> ''undefined'' | Some s \<Rightarrow> s)"

text \<open>\<open>n || 0\<close> on a number: \<open>NaN\<close> and \<open>0\<close> are falsy.\<close>

definition or_zero :: "jsnum \<Rightarrow> jsnum" where
  "or_zero n =
     (case n of
        NaN \<Rightarrow> Num 0
      | Num k \<Rightarrow> (if k = 0 then Num 0 else Num k)
      | PosInf \<Rightarrow> PosInf
      | NegInf \<Rightarrow> NegInf)"

section \<open>The two regular expressions\<close>

text \<open>
  The source matches two fixed patterns with \<open>String.prototype.match\<close>. They are
  embedded as backtracking matchers in continuation style: a matcher consumes a
  prefix of the input and hands the rest to its continuation; a greedy quantifier
  first tries to consume more and falls back when the continuation fails.
\<close>

text \<open>A literal.\<close>

definition lit :: "string \<Rightarrow> (string \<Rightarrow> 'a option) \<Rightarrow> string \<Rightarrow> 'a option" where
  "lit p k s = (if startsWith s p then k (drop (length p) s) else None)"

text \<open>
  A greedy, captured \<open>(c*)\<close> over a character class; \<open>acc\<close> is what has been
  captured so far. The continuation receives the capture and the rest.
\<close>

fun greedy_star ::
  "(char \<Rightarrow> bool) \<Rightarrow> (string \<Rightarrow> string \<Rightarrow> 'a option) \<Rightarrow> string \<Rightarrow> string \<Rightarrow> 'a option" where
  "greedy_star cls k acc [] = k acc []"
| "greedy_star cls k acc (c # cs) =
     (if cls c then
        (case greedy_star cls k (acc @ [c]) cs of
           Some r \<Rightarrow> Some r
         | None \<Rightarrow> k acc (c # cs))
      else k acc (c # cs))"

text \<open>A greedy, captured \<open>(c+)\<close>.\<close>

definition greedy_plus ::
  "(char \<Rightarrow> bool) \<Rightarrow> (string \<Rightarrow> string \<Rightarrow> 'a option) \<Rightarrow> string \<Rightarrow> 'a option" where
  "greedy_plus cls k s =
     (case s of
        [] \<Rightarrow> None
      | c # cs \<Rightarrow> if cls c then greedy_star cls k [c] cs else None)"

text \<open>
  The optional group \<open>(?:,(\d+))?\<close>: the group is tried first; when it (or what
  follows it) fails, the group is skipped and its capture is \<open>undefined\<close>.
\<close>

definition opt_count :: "(string option \<Rightarrow> string \<Rightarrow> 'a option) \<Rightarrow> string \<Rightarrow> 'a option" where
  "opt_count k s =
     (case lit '','' (greedy_plus is_digit (\<lambda>g. k (Some g))) s of
        Some r \<Rightarrow> Some r
      | None \<Rightarrow> k None s)"

text \<open>
  An unanchored pattern is tried at every start position from the left, the end
  of the string included; the first success is the match.
\<close>

fun re_search :: "(string \<Rightarrow> 'a option) \<Rightarrow> string \<Rightarrow> 'a option" where
  "re_search m [] = m []"
| "re_search m (c # cs) =
     (case m (c # cs) of
        Some r \<Rightarrow> Some r
      | None \<Rightarrow> re_search m cs)"

text \<open>\<open>.\<close> matches every character but a line terminator.\<close>

definition is_dot :: "char \<Rightarrow> bool" where
  "is_dot c = (c \<noteq> CHR 0x0A \<and> c \<noteq> CHR 0x0D)"

text \<open>\<open>/Binary files a\/(.*) and b\/(.*) differ/\<close>, returning the two groups.\<close>

definition binary_re_at :: "string \<Rightarrow> (string \<times> string) option" where
  "binary_re_at =
     lit ''Binary files a/''
       (greedy_star is_dot
          (\<lambda>g1. lit '' and b/''
             (greedy_star is_dot
                (\<lambda>g2. lit '' differ'' (\<lambda>_. Some (g1, g2))) [])) [])"

definition match_binary :: "string \<Rightarrow> (string \<times> string) option" where
  "match_binary s = re_search binary_re_at s"

text \<open>\<open>/@@ -(\d+)(?:,(\d+))? \+(\d+)(?:,(\d+))? @@/\<close>, returning the four groups.\<close>

definition hunk_re_at ::
  "string \<Rightarrow> (string \<times> string option \<times> string \<times> string option) option" where
  "hunk_re_at =
     lit ''@@ -''
       (greedy_plus is_digit
          (\<lambda>g1. opt_count
             (\<lambda>g2. lit '' +''
                (greedy_plus is_digit
                   (\<lambda>g3. opt_count
                      (\<lambda>g4. lit '' @@'' (\<lambda>_. Some (g1, g2, g3, g4))))))))"

definition match_hunk ::
  "string \<Rightarrow> (string \<times> string option \<times> string \<times> string option) option" where
  "match_hunk s = re_search hunk_re_at s"

section \<open>The diff data model\<close>

text \<open>The enumerations and interfaces of \<open>models/gitTypes.ts\<close>.\<close>

datatype FileStatus = ADDED | MODIFIED | DELETED | RENAMED | BINARY

datatype ChangeType = ADD | DELETE | NORMAL

record DiffChange =
  change_type :: ChangeType
  content :: string

record DiffChunk =
  oldStart :: jsnum
  oldLines :: jsnum
  newStart :: jsnum
  newLines :: jsnum
  changes :: "DiffChange list"

record FileDiff =
  oldPath :: string
  newPath :: string
  status :: FileStatus
  isBinary :: bool
  chunks :: "DiffChunk list"
  oldContent :: "string option"
  newContent :: "string option"

section \<open>parseGitDiff\<close>

text \<open>
  The three local variables of \<open>parseGitDiff\<close>. \<open>currentFile\<close> and
  \<open>currentChunk\<close> are \<open>null\<close> (\<open>None\<close>) or an object; the source creates both
  objects with every field it later tests (\<open>chunks\<close>, \<open>changes\<close>), so
  \<open>currentFile && currentFile.chunks\<close> is the test \<open>currentFile \<noteq> None\<close>.
\<close>

record parser_state =
  results :: "FileDiff list"
  currentFile :: "FileDiff option"
  currentChunk :: "DiffChunk option"

definition initial_state :: parser_state where
  "initial_state = \<lparr>results = [], currentFile = None, currentChunk = None\<rparr>"

text \<open>The object literal that starts a new file.\<close>

definition new_file :: FileDiff where
  "new_file = \<lparr>oldPath = [], newPath = [], status = MODIFIED, isBinary = False,
                chunks = [], oldContent = None, newContent = None\<rparr>"

text \<open>
  The branch for a line that starts with \<open>diff --git\<close>. The previous file is
  pushed as it is, the current chunk is reset, and the lines \<open>i\<close>, \<open>i + 1\<close>,
  \<open>i + 2\<close> are searched for \<open>Binary files\<close>; when one is found the index
  advances by two.
\<close>

definition file_header :: "string list \<Rightarrow> nat \<Rightarrow> parser_state \<Rightarrow> parser_state \<times> nat" where
  "file_header lines i st =
     (let res = (case currentFile st of
                   Some f \<Rightarrow> results st @ [f]
                 | None \<Rightarrow> results st)
      in case find (\<lambda>l. includes_str l ''Binary files'') (slice lines i (i + 3)) of
           Some binaryCheck \<Rightarrow>
             (let f = (case match_binary binaryCheck of
                         Some (g1, g2) \<Rightarrow> new_file\<lparr>oldPath := g1, newPath := g2, isBinary := True\<rparr>
                       | None \<Rightarrow> new_file\<lparr>isBinary := True\<rparr>)
              in (\<lparr>results = res, currentFile = Some f, currentChunk = None\<rparr>, i + 2))
         | None \<Rightarrow>
             (\<lparr>results = res, currentFile = Some new_file, currentChunk = None\<rparr>, i))"

text \<open>The branch for \<open>--- a/\<close>.\<close>

definition old_path_header :: "string \<Rightarrow> FileDiff \<Rightarrow> FileDiff" where
  "old_path_header line f = f\<lparr>oldPath := substring line 6\<rparr>"

text \<open>The branch for \<open>+++ b/\<close>, with the added/deleted check.\<close>

definition new_path_header :: "string \<Rightarrow> FileDiff \<Rightarrow> FileDiff" where
  "new_path_header line f =
     (let f1 = f\<lparr>newPath := substring line 6\<rparr>
      in if oldPath f1 = ''/dev/null'' then f1\<lparr>status := ADDED, oldPath := newPath f1\<rparr>
         else if newPath f1 = ''/dev/null'' then f1\<lparr>status := DELETED, newPath := oldPath f1\<rparr>
         else f1)"

text \<open>
  \<open>match.map(v => parseInt(v || '1', 10))\<close> on one capture group: a group that
  did not take part is \<open>undefined\<close>, and \<open>undefined\<close> and the empty string are
  falsy.
\<close>

definition group_number :: "string option \<Rightarrow> jsnum" where
  "group_number v =
     parseInt10 (case v of None \<Rightarrow> ''1'' | Some s \<Rightarrow> if s = [] then ''1'' else s)"

text \<open>The chunk object built from a matching header, or \<open>null\<close>.\<close>

definition parse_chunk_header :: "string \<Rightarrow> DiffChunk option" where
  "parse_chunk_header line =
     (case match_hunk line of
        Some (g1, g2, g3, g4) \<Rightarrow>
          Some \<lparr>oldStart = group_number (Some g1),
                oldLines = or_zero (group_number g2),
                newStart = group_number (Some g3),
                newLines = or_zero (group_number g4),
                changes = []\<rparr>
      | None \<Rightarrow> None)"

text \<open>The branch for \<open>@@\<close>: the previous chunk is pushed, then the header is parsed.\<close>

definition chunk_header :: "string \<Rightarrow> FileDiff \<Rightarrow> DiffChunk option \<Rightarrow> FileDiff \<times> DiffChunk option" where
  "chunk_header line f ch =
     ((case ch of
         Some c \<Rightarrow> f\<lparr>chunks := chunks f @ [c]\<rparr>
       | None \<Rightarrow> f),
      parse_chunk_header line)"

text \<open>The content branch: what one line appends to \<open>currentChunk.changes\<close>.\<close>

definition content_line :: "string \<Rightarrow> DiffChunk \<Rightarrow> DiffChunk" where
  "content_line line c =
     (if startsWith line ''+'' then
        c\<lparr>changes := changes c @ [\<lparr>change_type = ADD, content = substring line 1\<rparr>]\<rparr>
      else if startsWith line ''-'' then
        c\<lparr>changes := changes c @ [\<lparr>change_type = DELETE, content = substring line 1\<rparr>]\<rparr>
      else if startsWith line '' '' then
        c\<lparr>changes := changes c @ [\<lparr>change_type = NORMAL, content = substring line 1\<rparr>]\<rparr>
      else c)"

text \<open>
  One pass through the body of the \<open>for\<close> loop at index \<open>i\<close> (\<open>i\<close> is in range
  there): the new state and the value of \<open>i\<close> before the loop's \<open>i++\<close>.
\<close>

definition loop_body :: "string list \<Rightarrow> nat \<Rightarrow> parser_state \<Rightarrow> parser_state \<times> nat" where
  "loop_body lines i st =
     (let line = lines ! i
      in if startsWith line ''diff --git'' then file_header lines i st
         else if startsWith line ''--- a/'' \<and> currentFile st \<noteq> None then
           (st\<lparr>currentFile := map_option (old_path_header line) (currentFile st)\<rparr>, i)
         else if startsWith line ''+++ b/'' \<and> currentFile st \<noteq> None then
           (st\<lparr>currentFile := map_option (new_path_header line) (currentFile st)\<rparr>, i)
         else if startsWith line ''@@'' \<and> currentFile st \<noteq> None then
           (case currentFile st of
              Some f \<Rightarrow>
                (case chunk_header line f (currentChunk st) of
                   (f', ch') \<Rightarrow> (st\<lparr>currentFile := Some f', currentChunk := ch'\<rparr>, i))
            | None \<Rightarrow> (st, i))
         else
           (case (currentChunk st, currentFile st) of
              (Some c, Some f) \<Rightarrow>
                if \<not> isBinary f then (st\<lparr>currentChunk := Some (content_line line c)\<rparr>, i)
                else (st, i)
            | _ \<Rightarrow> (st, i)))"

text \<open>The \<open>for\<close> loop from index \<open>i\<close> on.\<close>

function parse_loop :: "string list \<Rightarrow> nat \<Rightarrow> parser_state \<Rightarrow> parser_state" where
  "parse_loop lines i st =
     (if i < length lines then
        (case loop_body lines i st of
           (st', i') \<Rightarrow> parse_loop lines (Suc i') st')
      else st)"
  by pat_completeness auto
termination
proof (relation "measure (\<lambda>(lines, i, st). length lines - i)")
  show "wf (measure (\<lambda>(lines, i, st). length lines - i))"
    by simp
next
  fix lines :: "string list" and i :: nat and st :: parser_state and st' i'
  assume "i < length lines" and "(st', i') = loop_body lines i st"
  then have "i \<le> i'"
    by (auto simp: loop_body_def file_header_def Let_def
             split: if_splits option.splits prod.splits)
  with \<open>i < length lines\<close>
  show "((lines, Suc i', st'), (lines, i, st)) \<in> measure (\<lambda>(lines, i, st). length lines - i)"
    by simp
qed

text \<open>After the loop: the last chunk goes into the last file, the last file into the results.\<close>

definition finish :: "parser_state \<Rightarrow> FileDiff list" where
  "finish st =
     (case currentFile st of
        Some f \<Rightarrow>
          results st @
            [case currentChunk st of
               Some c \<Rightarrow> f\<lparr>chunks := chunks f @ [c]\<rparr>
             | None \<Rightarrow> f]
      | None \<Rightarrow> results st)"

definition parseGitDiff :: "string \<Rightarrow> FileDiff list" where
  "parseGitDiff diffOutput = finish (parse_loop (js_split (CHR 0x0A) diffOutput) 0 initial_state)"

section \<open>GitService: the comparator\<close>

text \<open>
  \<open>DiffFile\<close> of \<open>models/gitTypes.ts\<close>. Its fields carry the prefix \<open>d_\<close> where
  \<open>FileDiff\<close> has a field of the same name. A path is \<open>undefined\<close> (\<open>None\<close>) when
  the row it is read from has too few fields.
\<close>

record DiffFile =
  d_oldPath :: "string option"
  d_newPath :: "string option"
  d_status :: FileStatus
  additions :: jsnum
  deletions :: jsnum
  d_isBinary :: bool

text \<open>\<open>switch (status.charAt(0))\<close>\<close>

definition mapGitStatusToFileStatus :: "string \<Rightarrow> FileStatus" where
  "mapGitStatusToFileStatus st =
     (let c = take 1 st
      in if c = ''A'' then ADDED
         else if c = ''D'' then DELETED
         else if c = ''R'' then RENAMED
         else MODIFIED)"

text \<open>
  One row of the name-status listing: \<open>const [status, ...paths] = line.split('\t')\<close>
  (\<open>split\<close> never returns an empty array, so \<open>status\<close> is always a string).
\<close>

definition name_status_row :: "string \<Rightarrow> DiffFile" where
  "name_status_row line =
     (let fields = js_split (CHR 0x09) line;
          st = hd fields;
          paths = tl fields
      in if startsWith st ''R'' then
           \<lparr>d_oldPath = index paths 0, d_newPath = index paths 1, d_status = RENAMED,
            additions = Num 0, deletions = Num 0, d_isBinary = False\<rparr>
         else
           \<lparr>d_oldPath = index paths 0, d_newPath = index paths 0,
            d_status = mapGitStatusToFileStatus st,
            additions = Num 0, deletions = Num 0, d_isBinary = False\<rparr>)"

text \<open>
  \<open>files.find(p)\<close> followed by assignments to the fields of the object found: the
  first element that satisfies \<open>p\<close> is updated in place, and nothing happens when
  there is none.
\<close>

fun update_first :: "('a \<Rightarrow> bool) \<Rightarrow> ('a \<Rightarrow> 'a) \<Rightarrow> 'a list \<Rightarrow> 'a list" where
  "update_first p g [] = []"
| "update_first p g (x # xs) = (if p x then g x # xs else x # update_first p g xs)"

text \<open>One row of the numstat listing, applied to the files collected so far.\<close>

definition stat_row :: "string \<Rightarrow> DiffFile list \<Rightarrow> DiffFile list" where
  "stat_row statLine files =
     (let fields = js_split (CHR 0x09) statLine;
          adds = index fields 0;
          dels = index fields 1;
          filePath = index fields 2
      in update_first (\<lambda>f. d_newPath f = filePath \<or> d_oldPath f = filePath)
           (\<lambda>file. if adds = Some ''-'' \<and> dels = Some ''-'' then file\<lparr>d_isBinary := True\<rparr>
                    else file\<lparr>additions := parseInt10 (js_to_string adds),
                              deletions := parseInt10 (js_to_string dels)\<rparr>)
           files)"

text \<open>\<open>output.split('\n').filter(Boolean)\<close>\<close>

definition rows :: "string \<Rightarrow> string list" where
  "rows output = filter (\<lambda>l. l \<noteq> []) (js_split (CHR 0x0A) output)"

text \<open>The two loops of \<open>compareRefs\<close> over the two listings.\<close>

definition compare_listings :: "string \<Rightarrow> string \<Rightarrow> DiffFile list" where
  "compare_listings diffOutput statOutput =
     foldl (\<lambda>files statLine. stat_row statLine files)
       (map name_status_row (rows diffOutput)) (rows statOutput)"

text \<open>
  The collaborators of \<open>GitService\<close>: \<open>git.diff(args)\<close> and \<open>git.show(args)\<close> give
  their output or fail (\<open>None\<close>), and \<open>read_file\<close> stands for reading a path of the
  working tree (\<open>None\<close> when there is no workspace or no such file).
\<close>

record git =
  git_diff :: "string list \<Rightarrow> string option"
  git_show :: "string list \<Rightarrow> string option"
  read_file :: "string \<Rightarrow> string option"

datatype GitReferenceType = COMMIT | BRANCH | TAG | WORKING_TREE | STAGED

record GitReference =
  ref_type :: GitReferenceType
  ref_name :: string
  ref_id :: "string option"

datatype error = GitNotInitialized | FailedToCompare | FailedToGetDiff string

definition getRefString :: "GitReference \<Rightarrow> string" where
  "getRefString r =
     (case ref_type r of
        COMMIT \<Rightarrow> (case ref_id r of
                     Some i \<Rightarrow> if i = [] then ref_name r else i
                   | None \<Rightarrow> ref_name r)
      | BRANCH \<Rightarrow> ref_name r
      | TAG \<Rightarrow> ref_name r
      | WORKING_TREE \<Rightarrow> []
      | STAGED \<Rightarrow> ''--staged'')"

definition compareRefs :: "git option \<Rightarrow> GitReference \<Rightarrow> GitReference \<Rightarrow> error + DiffFile list" where
  "compareRefs g baseRef compareRef =
     (case g of
        None \<Rightarrow> Inl GitNotInitialized
      | Some gt \<Rightarrow>
          (case git_diff gt [''--name-status'', getRefString baseRef, getRefString compareRef] of
             None \<Rightarrow> Inl FailedToCompare
           | Some diffOutput \<Rightarrow>
               (case git_diff gt [''--numstat'', getRefString baseRef, getRefString compareRef] of
                  None \<Rightarrow> Inl FailedToCompare
                | Some statOutput \<Rightarrow> Inr (compare_listings diffOutput statOutput))))"

text \<open>\<open>isFileBinary\<close>: a failing command counts as "not binary".\<close>

definition isFileBinary :: "git \<Rightarrow> string \<Rightarrow> string \<Rightarrow> string \<Rightarrow> bool" where
  "isFileBinary gt baseRefStr compareRefStr filePath =
     (case git_diff gt [''--numstat'', baseRefStr, compareRefStr, ''--'', filePath] of
        None \<Rightarrow> False
      | Some diffOutput \<Rightarrow>
          list_ex (\<lambda>line. let fields = js_split (CHR 0x09) line
                          in index fields 0 = Some ''-'' \<and> index fields 1 = Some ''-'')
            (rows diffOutput))"

text \<open>\<open>getFileStatus\<close>: the letter of the first row, \<open>MODIFIED\<close> by default.\<close>

definition getFileStatus :: "git \<Rightarrow> string \<Rightarrow> string \<Rightarrow> string \<Rightarrow> FileStatus" where
  "getFileStatus gt baseRefStr compareRefStr filePath =
     (case git_diff gt [''--name-status'', baseRefStr, compareRefStr, ''--'', filePath] of
        None \<Rightarrow> MODIFIED
      | Some diffOutput \<Rightarrow>
          (case rows diffOutput of
             [] \<Rightarrow> MODIFIED
           | l # _ \<Rightarrow> mapGitStatusToFileStatus (hd (js_split (CHR 0x09) l))))"

text \<open>\<open>getFileContent\<close>: every failure gives \<open>undefined\<close>.\<close>

definition getFileContent :: "git \<Rightarrow> GitReference \<Rightarrow> string \<Rightarrow> string option" where
  "getFileContent gt r filePath =
     (if ref_type r = WORKING_TREE then read_file gt filePath
      else git_show gt [getRefString r @ '':'' @ filePath])"

text \<open>
  \<open>getFileDiff\<close>. Every exception raised inside its \<open>try\<close> block, the "No diff
  found" one included, leaves as \<open>Failed to get diff for file\<close>.
\<close>

definition getFileDiff ::
  "git option \<Rightarrow> GitReference \<Rightarrow> GitReference \<Rightarrow> string \<Rightarrow> error + FileDiff" where
  "getFileDiff g baseRef compareRef filePath =
     (case g of
        None \<Rightarrow> Inl GitNotInitialized
      | Some gt \<Rightarrow>
          (let baseRefStr = getRefString baseRef;
               compareRefStr = getRefString compareRef
           in if isFileBinary gt baseRefStr compareRefStr filePath then
                Inr \<lparr>oldPath = filePath, newPath = filePath,
                     status = getFileStatus gt baseRefStr compareRefStr filePath,
                     isBinary = True, chunks = [], oldContent = None, newContent = None\<rparr>
              else
                (case git_diff gt [''-U10000'', baseRefStr, compareRefStr, ''--'', filePath] of
                   None \<Rightarrow> Inl (FailedToGetDiff filePath)
                 | Some diffOutput \<Rightarrow>
                     (case parseGitDiff diffOutput of
                        [] \<Rightarrow> Inl (FailedToGetDiff filePath)
                      | fileDiff # _ \<Rightarrow>
                          Inr (fileDiff\<lparr>oldContent := getFileContent gt baseRef filePath,
                                        newContent := getFileContent gt compareRef filePath\<rparr>)))))"

section \<open>Sample inputs\<close>

text \<open>Two file sections, one hunk each, as \<open>git diff\<close> prints them.\<close>

definition first_section :: string where
  "first_section =
     ''diff --git a/a.txt b/a.txt'' @ nl @
     ''index 1111111..2222222 100644'' @ nl @
     ''--- a/a.txt'' @ nl @
     ''+++ b/a.txt'' @ nl @
     ''@@ -1 +1 @@'' @ nl @
     ''-x'' @ nl @
     ''+y''"

definition second_section :: string where
  "second_section =
     ''diff --git a/b.txt b/b.txt'' @ nl @
     ''index 3333333..4444444 100644'' @ nl @
     ''--- a/b.txt'' @ nl @
     ''+++ b/b.txt'' @ nl @
     ''@@ -2 +2 @@'' @ nl @
     ''-p'' @ nl @
     ''+q''"

definition two_file_diff :: string where
  "two_file_diff = first_section @ nl @ second_section"

text \<open>An added file and a deleted file, as \<open>git diff\<close> prints them.\<close>

definition added_file_diff :: string where
  "added_file_diff =
     ''diff --git a/src/new.txt b/src/new.txt'' @ nl @
     ''new file mode 100644'' @ nl @
     ''index 0000000..1111111'' @ nl @
     ''--- /dev/null'' @ nl @
     ''+++ b/src/new.txt'' @ nl @
     ''@@ -0,0 +1 @@'' @ nl @
     ''+hello''"

definition deleted_file_diff :: string where
  "deleted_file_diff =
     ''diff --git a/src/old.txt b/src/old.txt'' @ nl @
     ''deleted file mode 100644'' @ nl @
     ''index 1111111..0000000'' @ nl @
     ''--- a/src/old.txt'' @ nl @
     ''+++ /dev/null'' @ nl @
     ''@@ -1 +0,0 @@'' @ nl @
     ''-bye''"

text \<open>
  The only headers for which the parser records the sentinel as a path: the
  sentinel written after the prefixes \<open>--- a/\<close> and \<open>+++ b/\<close>.
\<close>

definition prefixed_sentinel_added :: string where
  "prefixed_sentinel_added =
     ''diff --git a/src/new.txt b/src/new.txt'' @ nl @
     ''--- a//dev/null'' @ nl @
     ''+++ b/src/new.txt''"

definition prefixed_sentinel_deleted :: string where
  "prefixed_sentinel_deleted =
     ''diff --git a/src/old.txt b/src/old.txt'' @ nl @
     ''--- a/src/old.txt'' @ nl @
     ''+++ b//dev/null''"

text \<open>A binary section, alone and followed by the lines of a hunk.\<close>

definition binary_section :: string where
  "binary_section =
     ''diff --git a/img.png b/img.png'' @ nl @
     ''index 1111111..2222222 100644'' @ nl @
     ''Binary files a/img.png and b/img.png differ''"

definition binary_section_with_hunk :: string where
  "binary_section_with_hunk =
     binary_section @ nl @
     ''@@ -3,4 +3,6 @@'' @ nl @
     ''-x'' @ nl @
     ''+y''"

text \<open>A binary section followed by a hunk header only.\<close>

definition marker_then_hunk_header :: string where
  "marker_then_hunk_header =
     ''diff --git a/logo.gif b/logo.gif'' @ nl @
     ''index 5555555..6666666 100644'' @ nl @
     ''Binary files a/logo.gif and b/logo.gif differ'' @ nl @
     ''@@ -1 +1 @@''"

text \<open>A text file whose name contains the words of the marker.\<close>

definition text_file_named_binary_files :: string where
  "text_file_named_binary_files =
     ''diff --git a/Binary files.txt b/Binary files.txt'' @ nl @
     ''index 1111111..2222222 100644'' @ nl @
     ''--- a/Binary files.txt'' @ nl @
     ''+++ b/Binary files.txt'' @ nl @
     ''@@ -1 +1 @@'' @ nl @
     ''-x'' @ nl @
     ''+y''"

text \<open>
  Three collaborators between the branches \<open>main\<close> and \<open>feature\<close>, with the
  answers \<open>git diff\<close> gives to each argument list that \<open>GitService\<close> sends.

  In the first, \<open>old.txt\<close> was renamed to \<open>new.txt\<close> with its one line
  unchanged. The listings of the whole tree show the rename; limited to the
  path \<open>new.txt\<close> they show a new file, and so does the diff.
\<close>

definition new_file_section :: string where
  "new_file_section =
     ''diff --git a/new.txt b/new.txt'' @ nl @
     ''new file mode 100644'' @ nl @
     ''index 0000000..2222222'' @ nl @
     ''--- /dev/null'' @ nl @
     ''+++ b/new.txt'' @ nl @
     ''@@ -0,0 +1 @@'' @ nl @
     ''+y'' @ nl"

definition rename_git :: git where
  "rename_git =
     \<lparr>git_diff = (\<lambda>args.
          if args = [''--name-status'', ''main'', ''feature''] then
            Some (''R100'' @ tab @ ''old.txt'' @ tab @ ''new.txt'' @ nl)
          else if args = [''--numstat'', ''main'', ''feature''] then
            Some (''0'' @ tab @ ''0'' @ tab @ ''old.txt => new.txt'' @ nl)
          else if args = [''--name-status'', ''main'', ''feature'', ''--'', ''new.txt''] then
            Some (''A'' @ tab @ ''new.txt'' @ nl)
          else if args = [''--numstat'', ''main'', ''feature'', ''--'', ''new.txt''] then
            Some (''1'' @ tab @ ''0'' @ tab @ ''new.txt'' @ nl)
          else if args = [''-U10000'', ''main'', ''feature'', ''--'', ''new.txt''] then
            Some new_file_section
          else None),
      git_show = (\<lambda>args. if args = [''feature:new.txt''] then Some (''y'' @ nl) else None),
      read_file = (\<lambda>path. None)\<rparr>"

text \<open>
  In the second, the one line of the text file \<open>Binary files.txt\<close> was changed.
\<close>

definition named_git :: git where
  "named_git =
     \<lparr>git_diff = (\<lambda>args.
          if args = [''--name-status'', ''main'', ''feature''] \<or>
             args = [''--name-status'', ''main'', ''feature'', ''--'', ''Binary files.txt'']
          then Some (''M'' @ tab @ ''Binary files.txt'' @ nl)
          else if args = [''--numstat'', ''main'', ''feature''] \<or>
             args = [''--numstat'', ''main'', ''feature'', ''--'', ''Binary files.txt'']
          then Some (''1'' @ tab @ ''1'' @ tab @ ''Binary files.txt'' @ nl)
          else if args = [''-U10000'', ''main'', ''feature'', ''--'', ''Binary files.txt''] then
            Some (text_file_named_binary_files @ nl)
          else None),
      git_show = (\<lambda>args.
          if args = [''main:Binary files.txt''] then Some (''x'' @ nl)
          else if args = [''feature:Binary files.txt''] then Some (''y'' @ nl)
          else None),
      read_file = (\<lambda>path. None)\<rparr>"

text \<open>In the third, the binary file \<open>img.png\<close> was added.\<close>

definition binary_git :: git where
  "binary_git =
     \<lparr>git_diff = (\<lambda>args.
          if args = [''--name-status'', ''main'', ''feature''] \<or>
             args = [''--name-status'', ''main'', ''feature'', ''--'', ''img.png'']
          then Some (''A'' @ tab @ ''img.png'' @ nl)
          else if args = [''--numstat'', ''main'', ''feature''] \<or>
             args = [''--numstat'', ''main'', ''feature'', ''--'', ''img.png'']
          then Some (''-'' @ tab @ ''-'' @ tab @ ''img.png'' @ nl)
          else if args = [''-U10000'', ''main'', ''feature'', ''--'', ''img.png''] then
            Some (''diff --git a/img.png b/img.png'' @ nl @
                  ''new file mode 100644'' @ nl @
                  ''index 0000000..1111111'' @ nl @
                  ''Binary files /dev/null and b/img.png differ'' @ nl)
          else None),
      git_show = (\<lambda>args. None),
      read_file = (\<lambda>path. None)\<rparr>"

definition main_ref :: GitReference where
  "main_ref = \<lparr>ref_type = BRANCH, ref_name = ''main'', ref_id = None\<rparr>"

definition feature_ref :: GitReference where
  "feature_ref = \<lparr>ref_type = BRANCH, ref_name = ''feature'', ref_id = None\<rparr>"

section \<open>Predicates and states used in the statements\<close>

text \<open>
  The four line-start prefixes that the loop tests before it treats a line as
  content, in the order of the source.
\<close>

definition is_marker :: "string \<Rightarrow> bool" where
  "is_marker line =
     (startsWith line ''diff --git'' \<or> startsWith line ''--- a/'' \<or>
      startsWith line ''+++ b/'' \<or> startsWith line ''@@'')"

text \<open>The status values the parser assigns, and the loop invariant built on them.\<close>

definition parser_status :: "FileDiff \<Rightarrow> bool" where
  "parser_status f = (status f = ADDED \<or> status f = DELETED \<or> status f = MODIFIED)"

definition status_inv :: "parser_state \<Rightarrow> bool" where
  "status_inv st =
     (list_all parser_status (results st) \<and>
      (case currentFile st of Some f \<Rightarrow> parser_status f | None \<Rightarrow> True))"

text \<open>A state in the middle of a file: one open hunk, nothing recorded yet.\<close>

definition open_state :: parser_state where
  "open_state =
     \<lparr>results = [], currentFile = Some new_file,
      currentChunk = Some \<lparr>oldStart = Num 1, oldLines = Num 1, newStart = Num 1,
                           newLines = Num 1, changes = []\<rparr>\<rparr>"

text \<open>A section whose only hunk header is malformed, followed by a good section.\<close>

definition malformed_then_good :: string where
  "malformed_then_good =
     ''diff --git a/a.txt b/a.txt'' @ nl @
     ''--- a/a.txt'' @ nl @
     ''+++ b/a.txt'' @ nl @
     ''@@ -x,1 +1 @@'' @ nl @
     ''-x'' @ nl @
     ''+y'' @ nl @
     second_section"

text \<open>Lines with a malformed hunk header at index 2 and the next marker at index 5.\<close>

definition malformed_lines :: "string list" where
  "malformed_lines =
     [''@@ -1 +1 @@'', ''+a'', ''@@ oops @@'', ''+b'', '' c'', ''diff --git a/y b/y'']"

text \<open>
  A hunk header as the format writes it: a start is a nonempty run of decimal
  digits, a count is \<open>,\<close> and such a run, or is left out. \<open>header_number\<close>
  holds for a run whose value is below \<open>2 ^ 53\<close>, where a double holds each
  natural number exactly. \<open>count_value\<close> is the number the format gives a
  count: the digits read in base ten, and 1 for a count that is left out.
\<close>

definition digits :: "string \<Rightarrow> bool" where
  "digits ds = (ds \<noteq> [] \<and> list_all is_digit ds)"

definition opt_digits :: "string option \<Rightarrow> bool" where
  "opt_digits n = (case n of None \<Rightarrow> True | Some ds \<Rightarrow> digits ds)"

definition count_suffix :: "string option \<Rightarrow> string" where
  "count_suffix n = (case n of None \<Rightarrow> [] | Some ds \<Rightarrow> '','' @ ds)"

definition header_number :: "string \<Rightarrow> bool" where
  "header_number ds = (digits ds \<and> dec_value ds < 2 ^ 53)"

definition header_count :: "string option \<Rightarrow> bool" where
  "header_count n = (case n of None \<Rightarrow> True | Some ds \<Rightarrow> header_number ds)"

definition count_value :: "string option \<Rightarrow> jsnum" where
  "count_value n = (case n of None \<Rightarrow> Num 1 | Some ds \<Rightarrow> Num (dec_value ds))"

text \<open>The decimal numeral of a natural number, without leading zeros.\<close>

fun decimal :: "nat \<Rightarrow> string" where
  "decimal n =
     (if n < 10 then [char_of (48 + n)]
      else decimal (n div 10) @ [char_of (48 + n mod 10)])"

definition no_digit_ahead :: "string \<Rightarrow> bool" where
  "no_digit_ahead s = (case s of [] \<Rightarrow> True | c # _ \<Rightarrow> \<not> is_digit c)"

section \<open>Basic facts\<close>

lemma js_split_not_Nil: "js_split d s \<noteq> []"
  by (induction s) (auto split: list.splits)

lemma loop_body_index: "loop_body lines i st = (st', i') \<Longrightarrow> i \<le> i'"
  by (auto simp: loop_body_def file_header_def Let_def
           split: if_splits option.splits prod.splits)

declare parse_loop.simps [simp del]

declare bit_length.simps [simp del]

declare decimal.simps [simp del]

lemma parse_loop_step:
  "i < length lines \<Longrightarrow> loop_body lines i st = (st', i) \<Longrightarrow>
   parse_loop lines i st = parse_loop lines (Suc i) st'"
  by (simp add: parse_loop.simps [of lines i st])

lemma startsWith_char: "startsWith line [m] \<longleftrightarrow> (\<exists>t. line = m # t)"
  by (cases line) (auto simp: startsWith_def)

lemma hunk_prefix_excludes_others:
  "startsWith line ''@@'' \<Longrightarrow>
     \<not> startsWith line ''diff --git'' \<and> \<not> startsWith line ''--- a/'' \<and>
     \<not> startsWith line ''+++ b/''"
  by (cases line) (auto simp: startsWith_def)

section \<open>Two file sections\<close>

text \<open>
  What the \<open>diff --git\<close> branch does with an open chunk \<open>c\<close> of the file \<open>f\<close>:
  \<open>f\<close> is pushed without \<open>c\<close>, and \<open>c\<close> is gone from the state.
\<close>

lemma file_header_drops_open_chunk:
  assumes "currentFile st = Some f" and "currentChunk st = Some c"
  shows "results (fst (file_header lines i st)) = results st @ [f]"
    and "currentChunk (fst (file_header lines i st)) = None"
  using assms by (auto simp: file_header_def Let_def split: option.splits)

text \<open>
  Claim C1: for two concatenated \<open>diff --git\<close> sections, \<open>parseGitDiff\<close> returns
  two files in source order, each with exactly the hunks of its own section; in
  particular the last hunk of the first section goes into the first file.

  The code does not do the second part. Parsed alone, the first section has its
  hunk (the flush at the end of the input pushes it). Followed by the second
  section, the same file comes out with no hunk at all: the \<open>diff --git\<close> branch
  pushes the previous file and sets \<open>currentChunk\<close> to \<open>null\<close> without pushing the
  open chunk first.
\<close>

theorem two_sections_first_hunk_lost:
  "parseGitDiff first_section =
     [\<lparr>oldPath = ''a.txt'', newPath = ''a.txt'', status = MODIFIED, isBinary = False,
       chunks = [\<lparr>oldStart = Num 1, oldLines = Num 1, newStart = Num 1, newLines = Num 1,
                  changes = [\<lparr>change_type = DELETE, content = ''x''\<rparr>,
                             \<lparr>change_type = ADD, content = ''y''\<rparr>]\<rparr>],
       oldContent = None, newContent = None\<rparr>]
   \<and> parseGitDiff two_file_diff =
     [\<lparr>oldPath = ''a.txt'', newPath = ''a.txt'', status = MODIFIED, isBinary = False,
       chunks = [], oldContent = None, newContent = None\<rparr>,
      \<lparr>oldPath = ''b.txt'', newPath = ''b.txt'', status = MODIFIED, isBinary = False,
       chunks = [\<lparr>oldStart = Num 2, oldLines = Num 1, newStart = Num 2, newLines = Num 1,
                  changes = [\<lparr>change_type = DELETE, content = ''p''\<rparr>,
                             \<lparr>change_type = ADD, content = ''q''\<rparr>]\<rparr>],
       oldContent = None, newContent = None\<rparr>]"
  by code_simp

section \<open>Added and deleted files\<close>

text \<open>
  The status check of the \<open>+++ b/\<close> branch, on its own: when the old path
  recorded so far is the sentinel, the file becomes \<open>ADDED\<close> and both paths are
  the new path; when the new path is the sentinel, the file becomes \<open>DELETED\<close>
  and both paths are the old one.
\<close>

lemma new_path_header_added:
  "oldPath f = ''/dev/null'' \<Longrightarrow>
   new_path_header (''+++ b/'' @ p) f = f\<lparr>newPath := p, status := ADDED, oldPath := p\<rparr>"
  by (simp add: new_path_header_def substring_def)

lemma new_path_header_deleted:
  "oldPath f \<noteq> ''/dev/null'' \<Longrightarrow>
   new_path_header (''+++ b/'' @ ''/dev/null'') f =
     f\<lparr>newPath := ''/dev/null'', status := DELETED, newPath := oldPath f\<rparr>"
  by (simp add: new_path_header_def substring_def)

text \<open>
  The old path is only ever written by the \<open>--- a/\<close> branch, which keeps what
  follows the six characters of that prefix: the sentinel is recorded for the
  line \<open>--- a//dev/null\<close> and for no line that \<open>git diff\<close> prints.
\<close>

lemma old_path_header_sentinel:
  "oldPath (old_path_header line f) = ''/dev/null'' \<longleftrightarrow> drop 6 line = ''/dev/null''"
  by (simp add: old_path_header_def substring_def)

lemma prefixed_sentinel_parses:
  "parseGitDiff prefixed_sentinel_added =
     [\<lparr>oldPath = ''src/new.txt'', newPath = ''src/new.txt'', status = ADDED,
       isBinary = False, chunks = [], oldContent = None, newContent = None\<rparr>]
   \<and> parseGitDiff prefixed_sentinel_deleted =
     [\<lparr>oldPath = ''src/old.txt'', newPath = ''src/old.txt'', status = DELETED,
       isBinary = False, chunks = [], oldContent = None, newContent = None\<rparr>]"
  by code_simp

text \<open>
  Claim C2: a diff whose old-path header carries the sentinel \<open>/dev/null\<close> and
  whose new-path header carries a real path \<open>p\<close> yields one file with status
  \<open>ADDED\<close> and both paths \<open>p\<close>; symmetrically \<open>DELETED\<close> when the new path is
  the sentinel.

  On the headers \<open>git diff\<close> prints for an added file (\<open>--- /dev/null\<close>) and for
  a deleted file (\<open>+++ /dev/null\<close>) the code leaves the status \<open>MODIFIED\<close> and one
  path empty: neither line starts with \<open>--- a/\<close> or \<open>+++ b/\<close>, so neither is
  read as a path header.
\<close>

theorem added_and_deleted_files_stay_modified:
  "parseGitDiff added_file_diff =
     [\<lparr>oldPath = [], newPath = ''src/new.txt'', status = MODIFIED, isBinary = False,
       chunks = [\<lparr>oldStart = Num 0, oldLines = Num 0, newStart = Num 1, newLines = Num 1,
                  changes = [\<lparr>change_type = ADD, content = ''hello''\<rparr>]\<rparr>],
       oldContent = None, newContent = None\<rparr>]
   \<and> parseGitDiff deleted_file_diff =
     [\<lparr>oldPath = ''src/old.txt'', newPath = [], status = MODIFIED, isBinary = False,
       chunks = [\<lparr>oldStart = Num 1, oldLines = Num 1, newStart = Num 0, newLines = Num 0,
                  changes = [\<lparr>change_type = DELETE, content = ''bye''\<rparr>]\<rparr>],
       oldContent = None, newContent = None\<rparr>]"
  by code_simp

section \<open>Binary files\<close>

text \<open>
  Claim C4: every file returned with \<open>isBinary = true\<close> has no hunks, also when
  \<open>@@\<close> lines follow the marker in the same section.

  The content branch tests \<open>!currentFile.isBinary\<close>, the \<open>@@\<close> branch does not:
  a hunk header after the marker opens a chunk, which is pushed (with no
  changes) into the binary file. The second input is a text file whose name
  contains \<open>Binary files\<close>; the header line itself is then taken for the marker.
\<close>

theorem binary_file_with_hunks:
  "parseGitDiff marker_then_hunk_header =
     [\<lparr>oldPath = ''logo.gif'', newPath = ''logo.gif'', status = MODIFIED, isBinary = True,
       chunks = [\<lparr>oldStart = Num 1, oldLines = Num 1, newStart = Num 1, newLines = Num 1,
                  changes = []\<rparr>],
       oldContent = None, newContent = None\<rparr>]
   \<and> parseGitDiff text_file_named_binary_files =
     [\<lparr>oldPath = [], newPath = ''Binary files.txt'', status = MODIFIED, isBinary = True,
       chunks = [\<lparr>oldStart = Num 1, oldLines = Num 1, newStart = Num 1, newLines = Num 1,
                  changes = []\<rparr>],
       oldContent = None, newContent = None\<rparr>]"
  by code_simp

text \<open>
  Claim C5: a section with the marker \<open>Binary files a/img.png and b/img.png differ\<close>
  within the two lines after its header yields one file with \<open>isBinary = true\<close>,
  no hunks and the paths of the marker's two groups; the marker short-circuits
  all hunk parsing for that file.

  The first part holds for the section alone. The last part does not hold: with
  the lines of a hunk after the marker, the same section yields a file that
  has a hunk (its content lines are dropped, its header is not).
\<close>

theorem binary_marker_section:
  "parseGitDiff binary_section =
     [\<lparr>oldPath = ''img.png'', newPath = ''img.png'', status = MODIFIED, isBinary = True,
       chunks = [], oldContent = None, newContent = None\<rparr>]
   \<and> parseGitDiff binary_section_with_hunk =
     [\<lparr>oldPath = ''img.png'', newPath = ''img.png'', status = MODIFIED, isBinary = True,
       chunks = [\<lparr>oldStart = Num 3, oldLines = Num 4, newStart = Num 3, newLines = Num 6,
                  changes = []\<rparr>],
       oldContent = None, newContent = None\<rparr>]"
  by code_simp

section \<open>Content lines\<close>

lemma content_line_cases:
  "content_line line c =
     c\<lparr>changes := changes c @
        (case line of
           [] \<Rightarrow> []
         | m # t \<Rightarrow>
             if m = CHR ''+'' then [\<lparr>change_type = ADD, content = t\<rparr>]
             else if m = CHR ''-'' then [\<lparr>change_type = DELETE, content = t\<rparr>]
             else if m = CHR '' '' then [\<lparr>change_type = NORMAL, content = t\<rparr>]
             else [])\<rparr>"
  by (cases line) (auto simp: content_line_def startsWith_def substring_def)

text \<open>
  Claim C7: a line scanned while a current hunk exists and the current file is
  not binary, and that no marker prefix claims, appends one change when its
  first character is \<open>+\<close> (\<open>ADD\<close>), \<open>-\<close> (\<open>DELETE\<close>) or a space (\<open>NORMAL\<close>);
  the text of the change is the line without that one character. Any other
  line, the empty one included, appends nothing. Nothing else in the state
  changes and the index does not move.
\<close>

theorem content_line_change:
  assumes "currentFile st = Some f" and "\<not> isBinary f"
    and "currentChunk st = Some c"
    and "\<not> is_marker (lines ! i)"
  shows "loop_body lines i st =
           (st\<lparr>currentChunk := Some (c\<lparr>changes := changes c @
              (case lines ! i of
                 [] \<Rightarrow> []
               | m # t \<Rightarrow>
                   if m = CHR ''+'' then [\<lparr>change_type = ADD, content = t\<rparr>]
                   else if m = CHR ''-'' then [\<lparr>change_type = DELETE, content = t\<rparr>]
                   else if m = CHR '' '' then [\<lparr>change_type = NORMAL, content = t\<rparr>]
                   else [])\<rparr>)\<rparr>, i)"
proof -
  have "loop_body lines i st = (st\<lparr>currentChunk := Some (content_line (lines ! i) c)\<rparr>, i)"
    using assms by (simp add: loop_body_def is_marker_def)
  then show ?thesis
    by (simp only: content_line_cases)
qed

text \<open>
  The theorem at four lines, one of each kind; the texts keep their inner and
  trailing spaces.
\<close>

theorem content_line_change_witness:
  "loop_body [''+hello'', ''- bye '', ''  x'', CHR 0x5C # '' No newline at end of file''] 0
       open_state =
     (open_state\<lparr>currentChunk :=
        Some \<lparr>oldStart = Num 1, oldLines = Num 1, newStart = Num 1, newLines = Num 1,
              changes = [\<lparr>change_type = ADD, content = ''hello''\<rparr>]\<rparr>\<rparr>, 0)
   \<and> loop_body [''+hello'', ''- bye '', ''  x'', CHR 0x5C # '' No newline at end of file''] 1
       open_state =
     (open_state\<lparr>currentChunk :=
        Some \<lparr>oldStart = Num 1, oldLines = Num 1, newStart = Num 1, newLines = Num 1,
              changes = [\<lparr>change_type = DELETE, content = '' bye ''\<rparr>]\<rparr>\<rparr>, 1)
   \<and> loop_body [''+hello'', ''- bye '', ''  x'', CHR 0x5C # '' No newline at end of file''] 2
       open_state =
     (open_state\<lparr>currentChunk :=
        Some \<lparr>oldStart = Num 1, oldLines = Num 1, newStart = Num 1, newLines = Num 1,
              changes = [\<lparr>change_type = NORMAL, content = '' x''\<rparr>]\<rparr>\<rparr>, 2)
   \<and> loop_body [''+hello'', ''- bye '', ''  x'', CHR 0x5C # '' No newline at end of file''] 3
       open_state =
     (open_state, 3)"
proof -
  let ?c = "\<lparr>oldStart = Num 1, oldLines = Num 1, newStart = Num 1, newLines = Num 1,
              changes = []\<rparr>"
  let ?lines = "[''+hello'', ''- bye '', ''  x'', CHR 0x5C # '' No newline at end of file'']"
  have f: "currentFile open_state = Some new_file" by (simp add: open_state_def)
  have b: "\<not> isBinary new_file" by (simp add: new_file_def)
  have c: "currentChunk open_state = Some ?c" by (simp add: open_state_def)
  have m: "\<not> is_marker (?lines ! 0)" "\<not> is_marker (?lines ! 1)"
    "\<not> is_marker (?lines ! 2)" "\<not> is_marker (?lines ! 3)"
    by (simp_all add: is_marker_def startsWith_def)
  have same: "open_state\<lparr>currentChunk := Some ?c\<rparr> = open_state"
    by (simp add: open_state_def)
  show ?thesis
    using content_line_change [OF f b c m(1)] content_line_change [OF f b c m(2)]
      content_line_change [OF f b c m(3)] content_line_change [OF f b c m(4)] same
    by simp
qed

section \<open>Malformed hunk headers\<close>

lemma loop_body_no_chunk:
  assumes "currentChunk st = None" and "\<not> is_marker (lines ! n)"
  shows "loop_body lines n st = (st, n)"
  using assms by (simp add: loop_body_def is_marker_def)

text \<open>Without a current hunk, a run of lines that are no markers changes nothing.\<close>

lemma parse_loop_skip:
  assumes "currentChunk st = None"
    and "\<forall>n. j \<le> n \<and> n < k \<longrightarrow> \<not> is_marker (lines ! n)"
    and "j \<le> k" and "k \<le> length lines"
  shows "parse_loop lines j st = parse_loop lines k st"
  using assms(3,2)
proof (induction rule: inc_induct)
  case base
  show ?case by simp
next
  case (step n)
  have "loop_body lines n st = (st, n)"
    using assms(1) step.prems step.hyps by (intro loop_body_no_chunk) auto
  moreover have "n < length lines"
    using step.hyps assms(4) by simp
  ultimately have "parse_loop lines n st = parse_loop lines (Suc n) st"
    by (rule parse_loop_step [rotated])
  also have "\<dots> = parse_loop lines k st"
    using step.prems by (intro step.IH) auto
  finally show ?case .
qed

text \<open>
  Claim C3: \<open>parseGitDiff\<close> returns a sequence of files for every input string
  (the loop is defined by well-founded recursion on \<open>length lines - i\<close>, and no
  branch of it fails). For a line that starts with \<open>@@\<close> and does not match the
  header pattern, with a current file \<open>f\<close>: the previous hunk, if any, is pushed
  into \<open>f\<close>, the current hunk becomes none, and the lines up to the next marker
  line (index \<open>k\<close>, or the end of the input) leave that state as it is.
\<close>

theorem malformed_chunk_header:
  assumes "startsWith (lines ! i) ''@@''" and "match_hunk (lines ! i) = None"
    and "currentFile st = Some f"
    and "i < k" and "k \<le> length lines"
    and "\<forall>n. i < n \<and> n < k \<longrightarrow> \<not> is_marker (lines ! n)"
  shows "(\<exists>files. parseGitDiff diffOutput = files) \<and>
         loop_body lines i st =
           (st\<lparr>currentFile := Some (case currentChunk st of
                                      Some c \<Rightarrow> f\<lparr>chunks := chunks f @ [c]\<rparr>
                                    | None \<Rightarrow> f),
               currentChunk := None\<rparr>, i) \<and>
         parse_loop lines i st =
           parse_loop lines k
             (st\<lparr>currentFile := Some (case currentChunk st of
                                        Some c \<Rightarrow> f\<lparr>chunks := chunks f @ [c]\<rparr>
                                      | None \<Rightarrow> f),
                 currentChunk := None\<rparr>)"
proof -
  let ?st = "st\<lparr>currentFile := Some (case currentChunk st of
                                        Some c \<Rightarrow> f\<lparr>chunks := chunks f @ [c]\<rparr>
                                      | None \<Rightarrow> f),
                 currentChunk := None\<rparr>"
  have body: "loop_body lines i st = (?st, i)"
    using assms(1-3) hunk_prefix_excludes_others [OF assms(1)]
    by (simp add: loop_body_def chunk_header_def parse_chunk_header_def)
  have "i < length lines" using assms(4,5) by simp
  then have "parse_loop lines i st = parse_loop lines (Suc i) ?st"
    using body by (rule parse_loop_step)
  also have "\<dots> = parse_loop lines k ?st"
    using assms(4-6) by (intro parse_loop_skip) auto
  finally show ?thesis
    using body by simp
qed

text \<open>The theorem at a state with an open hunk: the hunk is pushed, the two lines after the header are skipped.\<close>

theorem malformed_chunk_header_witness:
  "loop_body malformed_lines 2 open_state =
     (\<lparr>results = [],
       currentFile = Some (new_file\<lparr>chunks :=
          [\<lparr>oldStart = Num 1, oldLines = Num 1, newStart = Num 1, newLines = Num 1,
            changes = []\<rparr>]\<rparr>),
       currentChunk = None\<rparr>, 2)
   \<and> parse_loop malformed_lines 2 open_state =
       parse_loop malformed_lines 5
         \<lparr>results = [],
          currentFile = Some (new_file\<lparr>chunks :=
             [\<lparr>oldStart = Num 1, oldLines = Num 1, newStart = Num 1, newLines = Num 1,
               changes = []\<rparr>]\<rparr>),
          currentChunk = None\<rparr>
   \<and> (\<exists>files. parseGitDiff ''@@ oops @@'' = files)"
proof -
  have l: "malformed_lines ! 2 = ''@@ oops @@''" "malformed_lines ! 3 = ''+b''"
    "malformed_lines ! 4 = '' c''" "length malformed_lines = 6"
    by (simp_all add: malformed_lines_def)
  have 1: "startsWith (malformed_lines ! 2) ''@@''"
    by (simp add: l startsWith_def)
  have 2: "match_hunk (malformed_lines ! 2) = None"
    unfolding l by code_simp
  have 3: "currentFile open_state = Some new_file"
    by (simp add: open_state_def)
  have 4: "(2::nat) < 5" and 5: "5 \<le> length malformed_lines"
    by (simp_all add: l)
  have 6: "\<forall>n. 2 < n \<and> n < 5 \<longrightarrow> \<not> is_marker (malformed_lines ! n)"
  proof (intro allI impI)
    fix n :: nat
    assume "2 < n \<and> n < 5"
    then have "n = 3 \<or> n = 4" by arith
    then show "\<not> is_marker (malformed_lines ! n)"
      by (auto simp: l is_marker_def startsWith_def)
  qed
  show ?thesis
    using malformed_chunk_header [OF 1 2 3 4 5 6, of "''@@ oops @@''"]
    by (simp add: open_state_def new_file_def)
qed

text \<open>
  A whole input: the section with the malformed header comes out without hunks,
  the section after it is parsed as usual.
\<close>

lemma malformed_section_example:
  "parseGitDiff malformed_then_good =
     [\<lparr>oldPath = ''a.txt'', newPath = ''a.txt'', status = MODIFIED, isBinary = False,
       chunks = [], oldContent = None, newContent = None\<rparr>,
      \<lparr>oldPath = ''b.txt'', newPath = ''b.txt'', status = MODIFIED, isBinary = False,
       chunks = [\<lparr>oldStart = Num 2, oldLines = Num 1, newStart = Num 2, newLines = Num 1,
                  changes = [\<lparr>change_type = DELETE, content = ''p''\<rparr>,
                             \<lparr>change_type = ADD, content = ''q''\<rparr>]\<rparr>],
       oldContent = None, newContent = None\<rparr>]"
  by code_simp

section \<open>Status values\<close>

lemma parser_status_chunks: "parser_status (f\<lparr>chunks := cs\<rparr>) = parser_status f"
  by (simp add: parser_status_def)

lemma new_path_header_status: "parser_status f \<Longrightarrow> parser_status (new_path_header line f)"
  by (simp add: new_path_header_def parser_status_def Let_def)

lemma old_path_header_status: "parser_status f \<Longrightarrow> parser_status (old_path_header line f)"
  by (simp add: old_path_header_def parser_status_def)

lemma file_header_status_inv:
  "status_inv st \<Longrightarrow> status_inv (fst (file_header lines i st))"
  by (auto simp: file_header_def status_inv_def parser_status_def new_file_def Let_def
           split: option.splits)

lemma loop_body_status_inv:
  assumes "status_inv st"
  shows "status_inv (fst (loop_body lines i st))"
proof -
  have hdr: "status_inv (fst (file_header lines i st))"
    using assms by (rule file_header_status_inv)
  have cur: "\<And>f. currentFile st = Some f \<Longrightarrow> parser_status f"
    using assms by (simp add: status_inv_def)
  have res: "list_all parser_status (results st)"
    using assms by (simp add: status_inv_def)
  show ?thesis
    using hdr cur res
    by (auto simp: loop_body_def Let_def status_inv_def chunk_header_def
                   new_path_header_status old_path_header_status parser_status_chunks
             split: option.splits)
qed

lemma parse_loop_status_inv:
  "status_inv st \<Longrightarrow> status_inv (parse_loop lines i st)"
proof (induction lines i st rule: parse_loop.induct)
  case (1 lines i st)
  show ?case
  proof (cases "i < length lines")
    case False
    then show ?thesis using "1.prems" by (simp add: parse_loop.simps)
  next
    case True
    obtain st' i' where b: "loop_body lines i st = (st', i')"
      by (cases "loop_body lines i st")
    have "status_inv st'"
      using loop_body_status_inv [OF "1.prems", of lines i] b by simp
    then have "status_inv (parse_loop lines (Suc i') st')"
      using "1.IH" [OF True b [symmetric]] by simp
    then show ?thesis
      using True b by (simp add: parse_loop.simps [of lines i st])
  qed
qed

lemma finish_status:
  "status_inv st \<Longrightarrow> list_all parser_status (finish st)"
  by (auto simp: finish_def status_inv_def parser_status_def split: option.splits)

lemma parseGitDiff_statuses: "list_all parser_status (parseGitDiff diffOutput)"
proof -
  have "status_inv initial_state"
    by (simp add: status_inv_def initial_state_def)
  then show ?thesis
    unfolding parseGitDiff_def by (intro finish_status parse_loop_status_inv)
qed

text \<open>
  Claim C10: every file returned by \<open>parseGitDiff\<close> has status \<open>ADDED\<close>,
  \<open>DELETED\<close> or \<open>MODIFIED\<close>; the parser never assigns \<open>RENAMED\<close> or \<open>BINARY\<close>.
\<close>

theorem parser_status_values:
  "\<forall>f \<in> set (parseGitDiff diffOutput).
     status f = ADDED \<or> status f = DELETED \<or> status f = MODIFIED"
  using parseGitDiff_statuses [of diffOutput]
  by (simp add: list_all_iff parser_status_def)

text \<open>The theorem at the second file of the two-file input.\<close>

theorem parser_status_values_witness:
  "length (parseGitDiff two_file_diff) = 2 \<and>
   (status (parseGitDiff two_file_diff ! 1) = ADDED \<or>
    status (parseGitDiff two_file_diff ! 1) = DELETED \<or>
    status (parseGitDiff two_file_diff ! 1) = MODIFIED)"
proof -
  have n: "length (parseGitDiff two_file_diff) = 2"
    by code_simp
  then have "parseGitDiff two_file_diff ! 1 \<in> set (parseGitDiff two_file_diff)"
    by simp
  then show ?thesis
    using parser_status_values [of two_file_diff] n by blast
qed

section \<open>Hunk headers\<close>

text \<open>
  A greedy run over a character class that is followed by a character outside
  the class (or by the end of the line) takes the whole run, provided the rest
  of the pattern matches from there.
\<close>

lemma is_digit_cases:
  "is_digit c \<Longrightarrow> \<not> is_js_space c \<and> c \<noteq> CHR ''-'' \<and> c \<noteq> CHR ''+'' \<and> c \<noteq> CHR '',''"
  by (auto simp: is_digit_def is_js_space_def)

lemma greedy_star_run:
  "list_all cls ds \<Longrightarrow> (case rest of [] \<Rightarrow> True | c # _ \<Rightarrow> \<not> cls c) \<Longrightarrow>
   k (acc @ ds) rest \<noteq> None \<Longrightarrow>
   greedy_star cls k acc (ds @ rest) = k (acc @ ds) rest"
proof (induction ds arbitrary: acc)
  case Nil
  then show ?case by (cases rest) auto
next
  case (Cons x xs)
  have "greedy_star cls k (acc @ [x]) (xs @ rest) = k ((acc @ [x]) @ xs) rest"
    using Cons.prems by (intro Cons.IH) auto
  then show ?case
    using Cons.prems by (auto split: option.splits)
qed

lemma greedy_plus_run:
  assumes "digits ds" and "no_digit_ahead rest" and "k ds rest \<noteq> None"
  shows "greedy_plus is_digit k (ds @ rest) = k ds rest"
proof -
  obtain x xs where ds: "ds = x # xs" and x: "is_digit x" and xs: "list_all is_digit xs"
    using assms(1) by (cases ds) (auto simp: digits_def)
  have "greedy_star is_digit k [x] (xs @ rest) = k ([x] @ xs) rest"
    using xs assms(2,3) ds by (intro greedy_star_run) (auto simp: no_digit_ahead_def)
  then show ?thesis
    using ds x by (simp add: greedy_plus_def)
qed

lemma opt_count_suffix:
  assumes "opt_digits b" and "no_digit_ahead rest" and "\<not> startsWith rest '',''"
    and "k b rest \<noteq> None"
  shows "opt_count k (count_suffix b @ rest) = k b rest"
proof (cases b)
  case None
  then show ?thesis
    using assms(3) by (simp add: opt_count_def count_suffix_def lit_def)
next
  case (Some x)
  then have "digits x" using assms(1) by (simp add: opt_digits_def)
  then have "greedy_plus is_digit (\<lambda>g. k (Some g)) (x @ rest) = k (Some x) rest"
    using assms(2,4) Some by (intro greedy_plus_run) auto
  then show ?thesis
    using Some assms(4)
    by (auto simp: opt_count_def count_suffix_def lit_def startsWith_def split: option.splits)
qed

lemma count_suffix_ahead:
  "opt_digits b \<Longrightarrow> no_digit_ahead (count_suffix b @ CHR '' '' # t)"
  by (cases b) (auto simp: no_digit_ahead_def count_suffix_def is_digit_def)

lemma re_search_first: "m s \<noteq> None \<Longrightarrow> re_search m s = m s"
  by (cases s) auto

lemma hunk_re_at_header:
  assumes "digits a" and "opt_digits b" and "digits c" and "opt_digits d"
  shows "hunk_re_at (''@@ -'' @ a @ count_suffix b @ '' +'' @ c @ count_suffix d @ '' @@'' @ rest)
           = Some (a, b, c, d)"
proof -
  let ?k4 = "\<lambda>g1 g2 g3 g4. lit '' @@'' (\<lambda>_. Some (g1, g2, g3, g4))"
  let ?k3 = "\<lambda>g1 g2 g3. opt_count (?k4 g1 g2 g3)"
  let ?k2 = "\<lambda>g1 g2. lit '' +'' (greedy_plus is_digit (?k3 g1 g2))"
  let ?k1 = "\<lambda>g1. opt_count (?k2 g1)"
  have s4: "?k4 a b c d ('' @@'' @ rest) = Some (a, b, c, d)"
    by (simp add: lit_def startsWith_def)
  have s3: "?k3 a b c (count_suffix d @ '' @@'' @ rest) = Some (a, b, c, d)"
    using opt_count_suffix [of d "'' @@'' @ rest" "?k4 a b c"] assms(4) s4
    by (simp add: no_digit_ahead_def is_digit_def startsWith_def)
  have s2': "greedy_plus is_digit (?k3 a b) (c @ count_suffix d @ '' @@'' @ rest)
               = Some (a, b, c, d)"
    using greedy_plus_run [of c "count_suffix d @ '' @@'' @ rest" "?k3 a b"] assms(3)
      count_suffix_ahead [OF assms(4), of "''@@'' @ rest"] s3
    by simp
  have s2: "?k2 a b ('' +'' @ c @ count_suffix d @ '' @@'' @ rest) = Some (a, b, c, d)"
    using s2' by (simp add: lit_def startsWith_def)
  have s1: "?k1 a (count_suffix b @ '' +'' @ c @ count_suffix d @ '' @@'' @ rest)
              = Some (a, b, c, d)"
    using opt_count_suffix [of b "'' +'' @ c @ count_suffix d @ '' @@'' @ rest" "?k2 a"]
      assms(2) s2
    by (simp add: no_digit_ahead_def is_digit_def startsWith_def)
  have s0: "greedy_plus is_digit ?k1
              (a @ count_suffix b @ '' +'' @ c @ count_suffix d @ '' @@'' @ rest)
              = Some (a, b, c, d)"
    using greedy_plus_run
        [of a "count_suffix b @ '' +'' @ c @ count_suffix d @ '' @@'' @ rest" ?k1]
      assms(1) count_suffix_ahead [OF assms(2), of "''+'' @ c @ count_suffix d @ '' @@'' @ rest"]
      s1
    by simp
  show ?thesis
    unfolding hunk_re_at_def using s0 by (simp add: lit_def startsWith_def)
qed

lemma parseInt10_digits:
  assumes "digits ds"
  shows "parseInt10 ds = to_double (dec_value ds)"
proof -
  obtain x xs where ds: "ds = x # xs" and x: "is_digit x" and xs: "list_all is_digit xs"
    using assms by (cases ds) (auto simp: digits_def)
  have "takeWhile is_digit ds = ds"
    using ds x xs by (simp add: list_all_iff)
  then show ?thesis
    using ds is_digit_cases [OF x] by (simp add: parseInt10_def startsWith_def Let_def)
qed

lemma to_double_exact: "n < 2 ^ 53 \<Longrightarrow> to_double n = Num n"
  by (simp add: to_double_def)

lemma or_zero_Num: "or_zero (Num k) = Num k"
  by (simp add: or_zero_def)

lemma group_number_digits: "digits ds \<Longrightarrow> group_number (Some ds) = to_double (dec_value ds)"
  by (simp add: group_number_def parseInt10_digits digits_def)

lemma group_number_undefined: "group_number None = Num 1"
proof -
  have "digits ''1''"
    by (simp add: digits_def is_digit_def)
  then have "parseInt10 ''1'' = to_double (dec_value ''1'')"
    by (rule parseInt10_digits)
  also have "\<dots> = Num 1"
    by (simp add: to_double_def dec_value_def digit_val_def)
  finally show ?thesis
    by (simp add: group_number_def)
qed

text \<open>
  Every header of that form is matched, whatever the size of its numbers: each
  field is the double nearest to the value of its digits.
\<close>

lemma parse_chunk_header_digits:
  assumes "digits a" and "opt_digits b" and "digits c" and "opt_digits d"
  shows "parse_chunk_header
           (''@@ -'' @ a @ count_suffix b @ '' +'' @ c @ count_suffix d @ '' @@'' @ rest) =
         Some \<lparr>oldStart = to_double (dec_value a), oldLines = or_zero (group_number b),
               newStart = to_double (dec_value c), newLines = or_zero (group_number d),
               changes = []\<rparr>"
proof -
  let ?h = "''@@ -'' @ a @ count_suffix b @ '' +'' @ c @ count_suffix d @ '' @@'' @ rest"
  have "match_hunk ?h = Some (a, b, c, d)"
    unfolding match_hunk_def
    using re_search_first [of hunk_re_at ?h] hunk_re_at_header [OF assms, of rest] by simp
  then show ?thesis
    using assms(1,3) by (simp add: parse_chunk_header_def group_number_digits)
qed

lemma header_number_field:
  "header_number ds \<Longrightarrow> to_double (dec_value ds) = Num (dec_value ds)"
  by (simp add: header_number_def to_double_exact)

lemma header_count_field:
  "header_count n \<Longrightarrow> or_zero (group_number n) = count_value n"
  by (cases n)
     (simp_all add: header_count_def header_number_def group_number_digits
                    group_number_undefined to_double_exact or_zero_Num count_value_def)

lemma header_count_digits: "header_count n \<Longrightarrow> opt_digits n"
  by (cases n) (simp_all add: header_count_def header_number_def opt_digits_def)

text \<open>
  \<open>dec_value\<close> reads a decimal numeral back: it is the inverse of writing a
  number in base ten.
\<close>

lemma dec_value_snoc: "dec_value (ds @ [c]) = 10 * dec_value ds + digit_val c"
  by (simp add: dec_value_def)

lemma digit_val_char:
  assumes "k < 10"
  shows "digit_val (char_of (48 + k)) = int k"
proof -
  have "(of_char (char_of (48 + k)) :: int) = int (of_char (char_of (48 + k)))"
    by (simp only: of_nat_of_char)
  also have "\<dots> = int ((48 + k) mod 256)"
    by simp
  also have "\<dots> = 48 + int k"
    using assms by simp
  finally show ?thesis
    by (simp add: digit_val_def)
qed

lemma dec_value_decimal: "dec_value (decimal n) = int n"
proof (induction n rule: decimal.induct)
  case (1 n)
  show ?case
  proof (cases "n < 10")
    case True
    then show ?thesis
      by (simp add: decimal.simps [of n] digit_val_char dec_value_def)
  next
    case False
    have "dec_value (decimal n) = 10 * dec_value (decimal (n div 10)) + int (n mod 10)"
      using False by (simp add: decimal.simps [of n] dec_value_snoc digit_val_char)
    also have "\<dots> = 10 * int (n div 10) + int (n mod 10)"
      using "1.IH" [OF False] by simp
    also have "\<dots> = int n"
      by presburger
    finally show ?thesis .
  qed
qed

text \<open>
  Beyond the exact range the fields are rounded as the source's doubles are:
  \<open>2 ^ 53 + 1\<close> is read as \<open>2 ^ 53\<close>, and a 1 with 309 zeros as \<open>Infinity\<close>.
\<close>

lemma parseInt10_beyond_exact:
  "parseInt10 ''9007199254740993'' = Num 9007199254740992
   \<and> parseInt10 ''9007199254740995'' = Num 9007199254740996
   \<and> parseInt10 (CHR ''1'' # replicate 309 (CHR ''0'')) = PosInf"
  by code_simp

text \<open>
  Claim C6: parsing a well-formed hunk header extracts the four numeric fields,
  and a count that is left out is 1; \<open>@@ -3,4 +3,6 @@\<close> gives 3, 4, 3, 6 and
  \<open>@@ -1 +1,2 @@\<close> gives 1, 1, 1, 2. The numbers of the header are below
  \<open>2 ^ 53\<close>, so that the source's doubles hold them exactly. Whatever follows
  the closing \<open>@@\<close> on the line is ignored.
\<close>

theorem chunk_header_fields:
  assumes "header_number a" and "header_count b"
    and "header_number c" and "header_count d"
  shows "parse_chunk_header
           (''@@ -'' @ a @ count_suffix b @ '' +'' @ c @ count_suffix d @ '' @@'' @ rest) =
         Some \<lparr>oldStart = Num (dec_value a), oldLines = count_value b,
               newStart = Num (dec_value c), newLines = count_value d, changes = []\<rparr>"
proof -
  have "digits a" and "digits c"
    using assms(1,3) by (simp_all add: header_number_def)
  then show ?thesis
    using parse_chunk_header_digits [of a b c d rest] assms
    by (simp add: header_count_digits header_number_field header_count_field)
qed

text \<open>
  The two headers of the claim, and a header with longer numbers and a
  function name after it.
\<close>

theorem chunk_header_fields_witness:
  "parse_chunk_header ''@@ -3,4 +3,6 @@'' =
     Some \<lparr>oldStart = Num 3, oldLines = Num 4, newStart = Num 3, newLines = Num 6,
           changes = []\<rparr>
   \<and> parse_chunk_header ''@@ -1 +1,2 @@'' =
     Some \<lparr>oldStart = Num 1, oldLines = Num 1, newStart = Num 1, newLines = Num 2,
           changes = []\<rparr>
   \<and> parse_chunk_header ''@@ -120,45 +1307,60 @@ int main()'' =
     Some \<lparr>oldStart = Num 120, oldLines = Num 45, newStart = Num 1307, newLines = Num 60,
           changes = []\<rparr>"
proof -
  have v: "dec_value ''1'' = 1" "dec_value ''2'' = 2" "dec_value ''3'' = 3"
    "dec_value ''4'' = 4" "dec_value ''6'' = 6" "dec_value ''120'' = 120"
    "dec_value ''45'' = 45" "dec_value ''1307'' = 1307" "dec_value ''60'' = 60"
    by (simp_all add: dec_value_def digit_val_def)
  have n: "header_number ''3''" "header_number ''1''" "header_number ''120''"
    "header_number ''1307''"
    by (simp_all add: header_number_def digits_def is_digit_def v)
  have c: "header_count (Some ''4'')" "header_count (Some ''6'')" "header_count None"
    "header_count (Some ''2'')" "header_count (Some ''45'')" "header_count (Some ''60'')"
    by (simp_all add: header_count_def header_number_def digits_def is_digit_def v)
  show ?thesis
    using chunk_header_fields [OF n(1) c(1) n(1) c(2), of "[]"]
      chunk_header_fields [OF n(2) c(3) n(2) c(4), of "[]"]
      chunk_header_fields [OF n(3) c(5) n(4) c(6), of "'' int main()''"]
    by (simp add: count_suffix_def count_value_def v)
qed

section \<open>Comparator rows\<close>

text \<open>Splitting a row whose fields contain no tab gives back the fields.\<close>

lemma js_split_field: "d \<notin> set a \<Longrightarrow> js_split d (a @ d # rest) = a # js_split d rest"
  by (induction a) (auto split: list.splits simp: js_split_not_Nil)

lemma js_split_last: "d \<notin> set a \<Longrightarrow> js_split d a = [a]"
  by (induction a) auto

lemma js_split_two:
  "CHR 0x09 \<notin> set a \<Longrightarrow> CHR 0x09 \<notin> set b \<Longrightarrow>
   js_split (CHR 0x09) (a @ tab @ b) = [a, b]"
  by (simp add: tab_def js_split_field js_split_last)

lemma js_split_three:
  "CHR 0x09 \<notin> set a \<Longrightarrow> CHR 0x09 \<notin> set b \<Longrightarrow> CHR 0x09 \<notin> set c \<Longrightarrow>
   js_split (CHR 0x09) (a @ tab @ b @ tab @ c) = [a, b, c]"
  by (simp add: tab_def js_split_field js_split_last)

lemma update_first_hit:
  "\<forall>g \<in> set pre. \<not> P g \<Longrightarrow> P f \<Longrightarrow>
   update_first P h (pre @ f # post) = pre @ h f # post"
  by (induction pre) auto

lemma update_first_miss: "\<forall>g \<in> set xs. \<not> P g \<Longrightarrow> update_first P h xs = xs"
  by (induction xs) auto

lemma name_status_row_one_path:
  assumes "CHR 0x09 \<notin> set s" and "CHR 0x09 \<notin> set p" and "\<not> startsWith s ''R''"
  shows "name_status_row (s @ tab @ p) =
           \<lparr>d_oldPath = Some p, d_newPath = Some p,
            d_status = mapGitStatusToFileStatus s,
            additions = Num 0, deletions = Num 0, d_isBinary = False\<rparr>"
  using assms by (simp add: name_status_row_def js_split_two index_def)

lemma name_status_row_rename:
  assumes "CHR 0x09 \<notin> set s" and "CHR 0x09 \<notin> set p" and "CHR 0x09 \<notin> set q"
    and "startsWith s ''R''"
  shows "name_status_row (s @ tab @ p @ tab @ q) =
           \<lparr>d_oldPath = Some p, d_newPath = Some q, d_status = RENAMED,
            additions = Num 0, deletions = Num 0, d_isBinary = False\<rparr>"
  using assms by (simp add: name_status_row_def js_split_three index_def)

lemma stat_row_fields:
  assumes "CHR 0x09 \<notin> set a" and "CHR 0x09 \<notin> set d" and "CHR 0x09 \<notin> set p"
  shows "stat_row (a @ tab @ d @ tab @ p) files =
           update_first (\<lambda>f. d_newPath f = Some p \<or> d_oldPath f = Some p)
             (\<lambda>file. if a = ''-'' \<and> d = ''-'' then file\<lparr>d_isBinary := True\<rparr>
                      else file\<lparr>additions := parseInt10 a, deletions := parseInt10 d\<rparr>)
             files"
  using assms
  by (simp add: stat_row_def js_split_three index_def js_to_string_def Let_def cong: if_cong)

text \<open>
  Claim C8: in a name-status row the letter \<open>A\<close> gives \<open>ADDED\<close>, \<open>D\<close> gives
  \<open>DELETED\<close>, \<open>R\<close> with any suffix gives \<open>RENAMED\<close> with the old and the new
  path taken from the row's two path fields, and anything else (\<open>M\<close> for one)
  gives \<open>MODIFIED\<close>; every entry starts with both counts 0 and not binary. A
  numstat row \<open>-\<close>, \<open>-\<close> sets \<open>isBinary\<close> on the first file whose new or old
  path is the row's path and touches nothing else, the counts included. A
  numstat row whose path no entry has changes nothing.
\<close>

theorem comparator_rows:
  assumes "CHR 0x09 \<notin> set s" and "CHR 0x09 \<notin> set p" and "CHR 0x09 \<notin> set q"
    and "CHR 0x09 \<notin> set a" and "CHR 0x09 \<notin> set d"
  shows
    "(startsWith s ''A'' \<longrightarrow>
        name_status_row (s @ tab @ p) =
          \<lparr>d_oldPath = Some p, d_newPath = Some p, d_status = ADDED,
           additions = Num 0, deletions = Num 0, d_isBinary = False\<rparr>) \<and>
     (startsWith s ''D'' \<longrightarrow>
        name_status_row (s @ tab @ p) =
          \<lparr>d_oldPath = Some p, d_newPath = Some p, d_status = DELETED,
           additions = Num 0, deletions = Num 0, d_isBinary = False\<rparr>) \<and>
     (startsWith s ''R'' \<longrightarrow>
        name_status_row (s @ tab @ p @ tab @ q) =
          \<lparr>d_oldPath = Some p, d_newPath = Some q, d_status = RENAMED,
           additions = Num 0, deletions = Num 0, d_isBinary = False\<rparr>) \<and>
     (\<not> startsWith s ''A'' \<and> \<not> startsWith s ''D'' \<and> \<not> startsWith s ''R'' \<longrightarrow>
        name_status_row (s @ tab @ p) =
          \<lparr>d_oldPath = Some p, d_newPath = Some p, d_status = MODIFIED,
           additions = Num 0, deletions = Num 0, d_isBinary = False\<rparr>) \<and>
     ((\<forall>g \<in> set pre. d_newPath g \<noteq> Some p \<and> d_oldPath g \<noteq> Some p) \<and>
      (d_newPath f = Some p \<or> d_oldPath f = Some p) \<longrightarrow>
        stat_row (''-'' @ tab @ ''-'' @ tab @ p) (pre @ f # post) =
          pre @ f\<lparr>d_isBinary := True\<rparr> # post) \<and>
     ((\<forall>g \<in> set files. d_newPath g \<noteq> Some p \<and> d_oldPath g \<noteq> Some p) \<longrightarrow>
        stat_row (a @ tab @ d @ tab @ p) files = files)"
proof (intro conjI impI)
  assume "startsWith s ''A''"
  then show "name_status_row (s @ tab @ p) =
          \<lparr>d_oldPath = Some p, d_newPath = Some p, d_status = ADDED,
           additions = Num 0, deletions = Num 0, d_isBinary = False\<rparr>"
    using name_status_row_one_path [of s p] assms(1,2)
    by (auto simp: startsWith_def mapGitStatusToFileStatus_def)
next
  assume "startsWith s ''D''"
  then show "name_status_row (s @ tab @ p) =
          \<lparr>d_oldPath = Some p, d_newPath = Some p, d_status = DELETED,
           additions = Num 0, deletions = Num 0, d_isBinary = False\<rparr>"
    using name_status_row_one_path [of s p] assms(1,2)
    by (auto simp: startsWith_def mapGitStatusToFileStatus_def)
next
  assume "startsWith s ''R''"
  then show "name_status_row (s @ tab @ p @ tab @ q) =
          \<lparr>d_oldPath = Some p, d_newPath = Some q, d_status = RENAMED,
           additions = Num 0, deletions = Num 0, d_isBinary = False\<rparr>"
    using assms(1-3) by (intro name_status_row_rename)
next
  assume "\<not> startsWith s ''A'' \<and> \<not> startsWith s ''D'' \<and> \<not> startsWith s ''R''"
  then show "name_status_row (s @ tab @ p) =
          \<lparr>d_oldPath = Some p, d_newPath = Some p, d_status = MODIFIED,
           additions = Num 0, deletions = Num 0, d_isBinary = False\<rparr>"
    using name_status_row_one_path [of s p] assms(1,2)
    by (auto simp: startsWith_def mapGitStatusToFileStatus_def)
next
  assume h: "(\<forall>g \<in> set pre. d_newPath g \<noteq> Some p \<and> d_oldPath g \<noteq> Some p) \<and>
      (d_newPath f = Some p \<or> d_oldPath f = Some p)"
  have "stat_row (''-'' @ tab @ ''-'' @ tab @ p) (pre @ f # post) =
          update_first (\<lambda>f. d_newPath f = Some p \<or> d_oldPath f = Some p)
             (\<lambda>file. file\<lparr>d_isBinary := True\<rparr>) (pre @ f # post)"
    using stat_row_fields [of "''-''" "''-''" p] assms(2) by simp
  also have "\<dots> = pre @ f\<lparr>d_isBinary := True\<rparr> # post"
    using h by (intro update_first_hit) auto
  finally show "stat_row (''-'' @ tab @ ''-'' @ tab @ p) (pre @ f # post) =
          pre @ f\<lparr>d_isBinary := True\<rparr> # post" .
next
  assume h: "\<forall>g \<in> set files. d_newPath g \<noteq> Some p \<and> d_oldPath g \<noteq> Some p"
  show "stat_row (a @ tab @ d @ tab @ p) files = files"
    unfolding stat_row_fields [OF assms(4,5,2)]
    using h by (intro update_first_miss) auto
qed


text \<open>The theorem at one row of each kind.\<close>

theorem comparator_rows_witness:
  "name_status_row (''A'' @ tab @ ''new.txt'') =
     \<lparr>d_oldPath = Some ''new.txt'', d_newPath = Some ''new.txt'', d_status = ADDED,
      additions = Num 0, deletions = Num 0, d_isBinary = False\<rparr>
   \<and> name_status_row (''D'' @ tab @ ''gone.txt'') =
     \<lparr>d_oldPath = Some ''gone.txt'', d_newPath = Some ''gone.txt'', d_status = DELETED,
      additions = Num 0, deletions = Num 0, d_isBinary = False\<rparr>
   \<and> name_status_row (''R100'' @ tab @ ''old.txt'' @ tab @ ''new.txt'') =
     \<lparr>d_oldPath = Some ''old.txt'', d_newPath = Some ''new.txt'', d_status = RENAMED,
      additions = Num 0, deletions = Num 0, d_isBinary = False\<rparr>
   \<and> name_status_row (''M'' @ tab @ ''img.png'') =
     \<lparr>d_oldPath = Some ''img.png'', d_newPath = Some ''img.png'', d_status = MODIFIED,
      additions = Num 0, deletions = Num 0, d_isBinary = False\<rparr>
   \<and> stat_row (''-'' @ tab @ ''-'' @ tab @ ''img.png'')
       [name_status_row (''A'' @ tab @ ''new.txt''),
        name_status_row (''M'' @ tab @ ''img.png'')] =
       [name_status_row (''A'' @ tab @ ''new.txt''),
        \<lparr>d_oldPath = Some ''img.png'', d_newPath = Some ''img.png'', d_status = MODIFIED,
         additions = Num 0, deletions = Num 0, d_isBinary = True\<rparr>]
   \<and> stat_row (''3'' @ tab @ ''1'' @ tab @ ''other.txt'')
       [name_status_row (''M'' @ tab @ ''img.png'')] =
       [name_status_row (''M'' @ tab @ ''img.png'')]"
proof -
  have t: "CHR 0x09 \<notin> set ''A''" "CHR 0x09 \<notin> set ''D''" "CHR 0x09 \<notin> set ''R100''"
    "CHR 0x09 \<notin> set ''M''" "CHR 0x09 \<notin> set ''new.txt''" "CHR 0x09 \<notin> set ''gone.txt''"
    "CHR 0x09 \<notin> set ''old.txt''" "CHR 0x09 \<notin> set ''img.png''"
    "CHR 0x09 \<notin> set ''other.txt''" "CHR 0x09 \<notin> set ''3''" "CHR 0x09 \<notin> set ''1''"
    by simp_all
  have A: "name_status_row (''A'' @ tab @ ''new.txt'') =
     \<lparr>d_oldPath = Some ''new.txt'', d_newPath = Some ''new.txt'', d_status = ADDED,
      additions = Num 0, deletions = Num 0, d_isBinary = False\<rparr>"
    using comparator_rows [OF t(1) t(5) t(5) t(10) t(11), THEN conjunct1]
    by (simp add: startsWith_def)
  have D: "name_status_row (''D'' @ tab @ ''gone.txt'') =
     \<lparr>d_oldPath = Some ''gone.txt'', d_newPath = Some ''gone.txt'', d_status = DELETED,
      additions = Num 0, deletions = Num 0, d_isBinary = False\<rparr>"
    using comparator_rows [OF t(2) t(6) t(6) t(10) t(11), THEN conjunct2, THEN conjunct1]
    by (simp add: startsWith_def)
  have R: "name_status_row (''R100'' @ tab @ ''old.txt'' @ tab @ ''new.txt'') =
     \<lparr>d_oldPath = Some ''old.txt'', d_newPath = Some ''new.txt'', d_status = RENAMED,
      additions = Num 0, deletions = Num 0, d_isBinary = False\<rparr>"
    using comparator_rows [OF t(3) t(7) t(5) t(10) t(11), THEN conjunct2, THEN conjunct2,
        THEN conjunct1]
    by (simp add: startsWith_def)
  have M: "name_status_row (''M'' @ tab @ ''img.png'') =
     \<lparr>d_oldPath = Some ''img.png'', d_newPath = Some ''img.png'', d_status = MODIFIED,
      additions = Num 0, deletions = Num 0, d_isBinary = False\<rparr>"
    using comparator_rows [OF t(4) t(8) t(8) t(10) t(11), THEN conjunct2, THEN conjunct2,
        THEN conjunct2, THEN conjunct1]
    by (simp add: startsWith_def)
  have B: "stat_row (''-'' @ tab @ ''-'' @ tab @ ''img.png'')
       [name_status_row (''A'' @ tab @ ''new.txt''),
        name_status_row (''M'' @ tab @ ''img.png'')] =
       [name_status_row (''A'' @ tab @ ''new.txt''),
        \<lparr>d_oldPath = Some ''img.png'', d_newPath = Some ''img.png'', d_status = MODIFIED,
         additions = Num 0, deletions = Num 0, d_isBinary = True\<rparr>]"
    using comparator_rows [where pre = "[name_status_row (''A'' @ tab @ ''new.txt'')]"
          and f = "name_status_row (''M'' @ tab @ ''img.png'')" and post = "[]",
        OF t(4) t(8) t(8) t(10) t(11), THEN conjunct2, THEN conjunct2,
        THEN conjunct2, THEN conjunct2, THEN conjunct1]
    unfolding A M by simp
  have U: "stat_row (''3'' @ tab @ ''1'' @ tab @ ''other.txt'')
       [name_status_row (''M'' @ tab @ ''img.png'')] =
       [name_status_row (''M'' @ tab @ ''img.png'')]"
    using comparator_rows [where files = "[name_status_row (''M'' @ tab @ ''img.png'')]",
        OF t(4) t(9) t(9) t(10) t(11), THEN conjunct2, THEN conjunct2,
        THEN conjunct2, THEN conjunct2, THEN conjunct2]
    unfolding M by simp
  show ?thesis
    using A D R M B U by (intro conjI)
qed

text \<open>
  Through both loops of \<open>compareRefs\<close>: the numstat rows never change a status,
  so the statuses returned are those of the name-status rows, in their order.
\<close>

lemma update_first_map:
  "(\<And>x. f (g x) = f x) \<Longrightarrow> map f (update_first P g xs) = map f xs"
  by (induction xs) auto

lemma stat_row_statuses: "map d_status (stat_row statLine files) = map d_status files"
  unfolding stat_row_def Let_def by (rule update_first_map) simp

lemma compare_listings_statuses:
  "map d_status (compare_listings diffOutput statOutput) =
     map (\<lambda>line. d_status (name_status_row line)) (rows diffOutput)"
proof -
  have "map d_status (foldl (\<lambda>files statLine. stat_row statLine files) files ls) =
          map d_status files" for files ls
    by (induction ls arbitrary: files) (simp_all add: stat_row_statuses)
  then show ?thesis
    by (simp add: compare_listings_def comp_def)
qed

text \<open>Both listings and both loops together, on a small example.\<close>

lemma compare_listings_example:
  "compare_listings
     (''A'' @ tab @ ''new.txt'' @ nl @ ''M'' @ tab @ ''img.png'' @ nl)
     (''3'' @ tab @ ''1'' @ tab @ ''new.txt'' @ nl @
      ''-'' @ tab @ ''-'' @ tab @ ''img.png'' @ nl @
      ''5'' @ tab @ ''5'' @ tab @ ''ghost.txt'' @ nl) =
     [\<lparr>d_oldPath = Some ''new.txt'', d_newPath = Some ''new.txt'', d_status = ADDED,
       additions = Num 3, deletions = Num 1, d_isBinary = False\<rparr>,
      \<lparr>d_oldPath = Some ''img.png'', d_newPath = Some ''img.png'', d_status = MODIFIED,
       additions = Num 0, deletions = Num 0, d_isBinary = True\<rparr>]"
  by code_simp

section \<open>Parser output and comparator output\<close>

lemma mapGitStatusToFileStatus_values:
  "mapGitStatusToFileStatus st = ADDED \<or> mapGitStatusToFileStatus st = DELETED \<or>
   mapGitStatusToFileStatus st = RENAMED \<or> mapGitStatusToFileStatus st = MODIFIED"
  by (simp add: mapGitStatusToFileStatus_def Let_def)

lemma getFileStatus_not_binary: "getFileStatus gt b c p \<noteq> BINARY"
proof -
  have "\<And>st. mapGitStatusToFileStatus st \<noteq> BINARY"
    using mapGitStatusToFileStatus_values by (metis FileStatus.distinct(7,13,17,19))
  then show ?thesis
    by (simp add: getFileStatus_def split: option.splits list.splits)
qed

text \<open>
  Claim C9: when a parser-derived file and a comparator-derived entry exist for
  the same path, the comparator's status and \<open>isBinary\<close> take precedence over
  the parser's; the row \<open>R100 old.txt new.txt\<close> merged with the parser's
  output for these paths yields \<open>RENAMED\<close>.

  The code has no such merge. The only place where the parser's output meets
  the listings is \<open>getFileDiff\<close>, which returns the parser's file when the
  numstat listing does not call the file binary. For the rename, the entry of
  \<open>compareRefs\<close> is \<open>RENAMED\<close> and the file returned for \<open>new.txt\<close> is
  \<open>MODIFIED\<close>. For the text file \<open>Binary files.txt\<close>, the entry of
  \<open>compareRefs\<close> is not binary and the file returned is.
\<close>

theorem comparator_values_not_merged:
  "compareRefs (Some rename_git) main_ref feature_ref =
     Inr [\<lparr>d_oldPath = Some ''old.txt'', d_newPath = Some ''new.txt'', d_status = RENAMED,
           additions = Num 0, deletions = Num 0, d_isBinary = False\<rparr>]
   \<and> getFileDiff (Some rename_git) main_ref feature_ref ''new.txt'' =
     Inr \<lparr>oldPath = [], newPath = ''new.txt'', status = MODIFIED, isBinary = False,
          chunks = [\<lparr>oldStart = Num 0, oldLines = Num 0, newStart = Num 1, newLines = Num 1,
                     changes = [\<lparr>change_type = ADD, content = ''y''\<rparr>]\<rparr>],
          oldContent = None, newContent = Some (''y'' @ nl)\<rparr>
   \<and> compareRefs (Some named_git) main_ref feature_ref =
     Inr [\<lparr>d_oldPath = Some ''Binary files.txt'', d_newPath = Some ''Binary files.txt'',
           d_status = MODIFIED, additions = Num 1, deletions = Num 1, d_isBinary = False\<rparr>]
   \<and> getFileDiff (Some named_git) main_ref feature_ref ''Binary files.txt'' =
     Inr \<lparr>oldPath = [], newPath = ''Binary files.txt'', status = MODIFIED, isBinary = True,
          chunks = [\<lparr>oldStart = Num 1, oldLines = Num 1, newStart = Num 1, newLines = Num 1,
                     changes = []\<rparr>],
          oldContent = Some (''x'' @ nl), newContent = Some (''y'' @ nl)\<rparr>"
  by code_simp

text \<open>
  Claim C9 as amended: \<open>getFileDiff\<close> does not merge the two sources. When
  the numstat listing for the file has \<open>-\<close> for both counts, the file returned
  has \<open>isBinary = true\<close>, no hunks, the given path twice, and the status of the
  name-status letter, which is never \<open>BINARY\<close>. Otherwise the file returned
  is the first file of the parser with the two content snapshots added: its
  paths, \<open>isBinary\<close> and hunks are the parser's, and its status is \<open>ADDED\<close>,
  \<open>DELETED\<close> or \<open>MODIFIED\<close> whatever the name-status listing says.
\<close>

theorem getFileDiff_status_source:
  assumes "getFileDiff (Some gt) baseRef compareRef filePath = Inr r"
  shows
    "(isFileBinary gt (getRefString baseRef) (getRefString compareRef) filePath \<longrightarrow>
        isBinary r \<and> chunks r = [] \<and> oldPath r = filePath \<and> newPath r = filePath \<and>
        status r = getFileStatus gt (getRefString baseRef) (getRefString compareRef) filePath \<and>
        status r \<noteq> BINARY) \<and>
     (\<not> isFileBinary gt (getRefString baseRef) (getRefString compareRef) filePath \<longrightarrow>
        (\<exists>diffOutput fileDiff others.
           git_diff gt [''-U10000'', getRefString baseRef, getRefString compareRef, ''--'',
                        filePath] = Some diffOutput \<and>
           parseGitDiff diffOutput = fileDiff # others \<and>
           r = fileDiff\<lparr>oldContent := getFileContent gt baseRef filePath,
                         newContent := getFileContent gt compareRef filePath\<rparr>) \<and>
        (status r = ADDED \<or> status r = DELETED \<or> status r = MODIFIED))"
proof (rule conjI; rule impI)
  assume b: "isFileBinary gt (getRefString baseRef) (getRefString compareRef) filePath"
  then have r: "r = \<lparr>oldPath = filePath, newPath = filePath,
      status = getFileStatus gt (getRefString baseRef) (getRefString compareRef) filePath,
      isBinary = True, chunks = [], oldContent = None, newContent = None\<rparr>"
    using assms by (simp add: getFileDiff_def Let_def)
  show "isBinary r \<and> chunks r = [] \<and> oldPath r = filePath \<and> newPath r = filePath \<and>
        status r = getFileStatus gt (getRefString baseRef) (getRefString compareRef) filePath \<and>
        status r \<noteq> BINARY"
    by (simp add: r getFileStatus_not_binary)
next
  assume nb: "\<not> isFileBinary gt (getRefString baseRef) (getRefString compareRef) filePath"
  then obtain diffOutput fileDiff others where
    out: "git_diff gt [''-U10000'', getRefString baseRef, getRefString compareRef, ''--'',
                       filePath] = Some diffOutput"
    and p: "parseGitDiff diffOutput = fileDiff # others"
    and r: "r = fileDiff\<lparr>oldContent := getFileContent gt baseRef filePath,
                          newContent := getFileContent gt compareRef filePath\<rparr>"
    using assms by (auto simp: getFileDiff_def Let_def split: option.splits list.splits)
  have "parser_status fileDiff"
    using parseGitDiff_statuses [of diffOutput] p by simp
  then have "status r = ADDED \<or> status r = DELETED \<or> status r = MODIFIED"
    by (simp add: r parser_status_def)
  then show "(\<exists>diffOutput fileDiff others.
           git_diff gt [''-U10000'', getRefString baseRef, getRefString compareRef, ''--'',
                        filePath] = Some diffOutput \<and>
           parseGitDiff diffOutput = fileDiff # others \<and>
           r = fileDiff\<lparr>oldContent := getFileContent gt baseRef filePath,
                         newContent := getFileContent gt compareRef filePath\<rparr>) \<and>
        (status r = ADDED \<or> status r = DELETED \<or> status r = MODIFIED)"
    using out p r by blast
qed

text \<open>
  The theorem at the renamed file, where the letter of the listing limited to
  the path is \<open>A\<close> and the status returned is the parser's \<open>MODIFIED\<close>, and at
  the added binary file, where the status returned is the letter's \<open>ADDED\<close>.
\<close>

theorem getFileDiff_status_source_witness:
  "getFileDiff (Some rename_git) main_ref feature_ref ''new.txt'' =
     Inr \<lparr>oldPath = [], newPath = ''new.txt'', status = MODIFIED, isBinary = False,
          chunks = [\<lparr>oldStart = Num 0, oldLines = Num 0, newStart = Num 1, newLines = Num 1,
                     changes = [\<lparr>change_type = ADD, content = ''y''\<rparr>]\<rparr>],
          oldContent = None, newContent = Some (''y'' @ nl)\<rparr>
   \<and> isFileBinary rename_git (getRefString main_ref) (getRefString feature_ref) ''new.txt''
       = False
   \<and> getFileStatus rename_git (getRefString main_ref) (getRefString feature_ref) ''new.txt''
       = ADDED
   \<and> getFileDiff (Some binary_git) main_ref feature_ref ''img.png'' =
     Inr \<lparr>oldPath = ''img.png'', newPath = ''img.png'', status = ADDED, isBinary = True,
          chunks = [], oldContent = None, newContent = None\<rparr>
   \<and> isFileBinary binary_git (getRefString main_ref) (getRefString feature_ref) ''img.png''
       = True"
proof -
  have t: "getFileDiff (Some rename_git) main_ref feature_ref ''new.txt'' =
     Inr \<lparr>oldPath = [], newPath = ''new.txt'', status = MODIFIED, isBinary = False,
          chunks = [\<lparr>oldStart = Num 0, oldLines = Num 0, newStart = Num 1, newLines = Num 1,
                     changes = [\<lparr>change_type = ADD, content = ''y''\<rparr>]\<rparr>],
          oldContent = None, newContent = Some (''y'' @ nl)\<rparr>"
    by code_simp
  have b: "getFileDiff (Some binary_git) main_ref feature_ref ''img.png'' =
     Inr \<lparr>oldPath = ''img.png'', newPath = ''img.png'', status = ADDED, isBinary = True,
          chunks = [], oldContent = None, newContent = None\<rparr>"
    by code_simp
  have nb: "isFileBinary rename_git (getRefString main_ref) (getRefString feature_ref)
              ''new.txt'' = False"
    by code_simp
  have ib: "isFileBinary binary_git (getRefString main_ref) (getRefString feature_ref)
              ''img.png'' = True"
    by code_simp
  have fs: "getFileStatus rename_git (getRefString main_ref) (getRefString feature_ref)
              ''new.txt'' = ADDED"
    by code_simp
  show ?thesis
    using getFileDiff_status_source [OF t] getFileDiff_status_source [OF b] t b nb ib fs
    by simp
qed

end
